theory Spec2Isabelle
  imports Main
begin

section \<open>The py2neo command line tool (py2neo/cli/tool.py)\<close>

text \<open>
  A shallow embedding of \<^verbatim>\<open>Py2neoCommandLineTool\<close>: the classification of one input
  line (\<^verbatim>\<open>runsource\<close>), the dispatch of a slash command (\<^verbatim>\<open>run_command\<close>), the
  prompt, and the two invocation modes of \<^verbatim>\<open>use\<close>. Strings are lists of characters
  with code points below 256. Exceptions are values: a call returns either the exception
  it raises or its result, together with the state it leaves behind (what a Python call
  has mutated before it raises stays mutated).
\<close>

subsection \<open>Python strings\<close>

text \<open>
  \<^verbatim>\<open>str.isspace\<close> on one character, for the code points below 256: tab, line feed,
  vertical tab, form feed, carriage return, the four separators 0x1C to 0x1F, space,
  next line (0x85) and no-break space (0xA0).
\<close>

definition isspace :: "char \<Rightarrow> bool" where
  "isspace c =
     (c \<in> set [CHR 0x09, CHR 0x0A, CHR 0x0B, CHR 0x0C, CHR 0x0D,
                CHR 0x1C, CHR 0x1D, CHR 0x1E, CHR 0x1F, CHR 0x20, CHR 0x85, CHR 0xA0])"

text \<open>\<^verbatim>\<open>source.lstrip()\<close>: drop the leading whitespace.\<close>

definition lstrip :: "string \<Rightarrow> string" where
  "lstrip s = dropWhile isspace s"

text \<open>\<^verbatim>\<open>s.startswith(p)\<close>.\<close>

definition startswith :: "string \<Rightarrow> string \<Rightarrow> bool" where
  "startswith s p = (take (length p) s = p)"

text \<open>
  \<^verbatim>\<open>str.lower\<close>, for the code points below 256: the letters A to Z and the Latin-1
  capitals 0xC0 to 0xDE (but the multiplication sign 0xD7) move up by 32.
\<close>

definition lower_char :: "char \<Rightarrow> char" where
  "lower_char c =
     (let n = (of_char c :: nat)
      in if (65 \<le> n \<and> n \<le> 90) \<or> (192 \<le> n \<and> n \<le> 222 \<and> n \<noteq> 215)
         then char_of (n + 32) else c)"

definition lower :: "string \<Rightarrow> string" where
  "lower s = map lower_char s"

text \<open>\<^verbatim>\<open>sep.join(xs)\<close>.\<close>

fun join :: "string \<Rightarrow> string list \<Rightarrow> string" where
  "join sep [] = []"
| "join sep [x] = x"
| "join sep (x # y # ys) = x @ sep @ join sep (y # ys)"

text \<open>\<^verbatim>\<open>"%d" % n\<close> for a natural number.\<close>

fun decimal :: "nat \<Rightarrow> string" where
  "decimal n =
     (if n < 10 then [char_of (48 + n)]
      else decimal (n div 10) @ [char_of (48 + n mod 10)])"

subsection \<open>Exceptions\<close>

datatype exn =
    IndexError
  | ValueError string
  | CypherSyntaxError string
  | ServiceUnavailable
  | SystemExit int
  | KeyboardInterrupt
  | OtherError string

subsection \<open>shlex.split\<close>

text \<open>
  The tokenizer of the Python standard library, as \<^verbatim>\<open>shlex.split(s)\<close> sets it up:
  POSIX mode, \<^verbatim>\<open>whitespace_split\<close> on, no comment characters, no punctuation
  characters. The lexer's \<^verbatim>\<open>state\<close> is \<^verbatim>\<open>None\<close> past the end of the input, a
  space between tokens, \<^verbatim>\<open>'a'\<close> inside a word, the quote character inside quotes and
  the backslash after an escape.
\<close>

definition whitespace :: string where
  "whitespace = [CHR '' '', CHR 0x09, CHR 0x0D, CHR 0x0A]"

definition quotes :: string where
  "quotes = [CHR 0x27, CHR 0x22]"

definition escape :: string where
  "escape = [CHR 0x5C]"

definition escapedquotes :: string where
  "escapedquotes = [CHR 0x22]"

text \<open>
  \<^verbatim>\<open>read_token\<close>: one iteration of its loop per character read. The arguments after the
  input are \<^verbatim>\<open>self.state\<close>, \<^verbatim>\<open>self.token\<close>, \<^verbatim>\<open>quoted\<close> and
  \<^verbatim>\<open>escapedstate\<close>; the result is the token (\<^verbatim>\<open>None\<close> for an unquoted empty one),
  the input left and the state left.
\<close>

definition emit :: "string \<Rightarrow> bool \<Rightarrow> string option" where
  "emit token quoted = (if \<not> quoted \<and> token = [] then None else Some token)"

fun read_token ::
  "string \<Rightarrow> char option \<Rightarrow> string \<Rightarrow> bool \<Rightarrow> char \<Rightarrow> exn + (string option \<times> string \<times> char option)"
where
  "read_token [] state token quoted escapedstate =
     (case state of
        None \<Rightarrow> Inr (emit [] quoted, [], None)
      | Some st \<Rightarrow>
          if st = CHR '' '' then Inr (emit token quoted, [], None)
          else if st \<in> set quotes then Inl (ValueError ''No closing quotation'')
          else if st \<in> set escape then Inl (ValueError ''No escaped character'')
          else Inr (emit token quoted, [], None))"
| "read_token (nextchar # rest) state token quoted escapedstate =
     (case state of
        None \<Rightarrow> Inr (emit [] quoted, rest, None)
      | Some st \<Rightarrow>
          if st = CHR '' '' then
            (if nextchar \<in> set whitespace then
               (if token \<noteq> [] \<or> quoted then Inr (emit token quoted, rest, state)
                else read_token rest state token quoted escapedstate)
             else if nextchar \<in> set escape then
               read_token rest (Some nextchar) token quoted (CHR ''a'')
             else if nextchar \<in> set quotes then
               read_token rest (Some nextchar) token quoted escapedstate
             else read_token rest (Some (CHR ''a'')) [nextchar] quoted escapedstate)
          else if st \<in> set quotes then
            (if nextchar = st then read_token rest (Some (CHR ''a'')) token True escapedstate
             else if nextchar \<in> set escape \<and> st \<in> set escapedquotes then
               read_token rest (Some nextchar) token True st
             else read_token rest state (token @ [nextchar]) True escapedstate)
          else if st \<in> set escape then
            (if escapedstate \<in> set quotes \<and> nextchar \<noteq> st \<and> nextchar \<noteq> escapedstate
             then read_token rest (Some escapedstate) (token @ [st] @ [nextchar]) quoted escapedstate
             else read_token rest (Some escapedstate) (token @ [nextchar]) quoted escapedstate)
          else
            (if nextchar \<in> set whitespace then
               (if token \<noteq> [] \<or> quoted then Inr (emit token quoted, rest, Some (CHR '' ''))
                else read_token rest (Some (CHR '' '')) token quoted escapedstate)
             else if nextchar \<in> set quotes then
               read_token rest (Some nextchar) token quoted escapedstate
             else if nextchar \<in> set escape then
               read_token rest (Some nextchar) token quoted (CHR ''a'')
             else read_token rest state (token @ [nextchar]) quoted escapedstate))"

lemma read_token_rest:
  "read_token inp state token quoted escapedstate = Inr (r, rest, state') \<Longrightarrow>
   length rest \<le> length inp"
proof (induction inp state token quoted escapedstate rule: read_token.induct)
  case (1 state token quoted escapedstate)
  then show ?case by (auto split: option.splits if_splits)
next
  case (2 nextchar rest0 state token quoted escapedstate)
  show ?case
  proof (cases state)
    case None
    with "2.prems" show ?thesis by auto
  next
    case (Some st)
    with "2.prems" "2.IH" show ?thesis
      by (fastforce split: if_splits)
  qed
qed

lemma read_token_consumes:
  "read_token inp state [] False escapedstate = Inr (Some t, rest, state') \<Longrightarrow>
   length rest < length inp"
  by (cases inp)
     (auto split: option.splits if_splits simp: Let_def emit_def dest!: read_token_rest)

text \<open>
  Iterating the lexer (\<^verbatim>\<open>list(lex)\<close>): tokens are read until \<^verbatim>\<open>read_token\<close>
  returns \<^verbatim>\<open>None\<close>; each call starts with an empty token, \<^verbatim>\<open>quoted = False\<close> and
  \<^verbatim>\<open>escapedstate = ' '\<close>.
\<close>

function tokens_from :: "string \<Rightarrow> char option \<Rightarrow> exn + string list" where
  "tokens_from inp state =
     (case read_token inp state [] False (CHR '' '') of
        Inl e \<Rightarrow> Inl e
      | Inr (None, rest, state') \<Rightarrow> Inr []
      | Inr (Some t, rest, state') \<Rightarrow>
          (case tokens_from rest state' of
             Inl e \<Rightarrow> Inl e
           | Inr ts \<Rightarrow> Inr (t # ts)))"
  by pat_completeness auto
termination
  by (relation "measure (\<lambda>(inp, state). length inp)") (auto dest: read_token_consumes)

definition shlex_split :: "string \<Rightarrow> exn + string list" where
  "shlex_split s = tokens_from s (Some (CHR '' ''))"

subsection \<open>The output sink and the environment\<close>

text \<open>
  Modelled from the spec: the \<^verbatim>\<open>Console\<close> class (py2neo/cli/console.py) is not among
  the sources. The spec gives the output sink three operations, \<^verbatim>\<open>write(text)\<close>,
  \<^verbatim>\<open>write_error(text)\<close> and \<^verbatim>\<open>write_help(text)\<close>; the sink is the log of the calls
  made on it, oldest first. \<^verbatim>\<open>write()\<close> with no text is the blank separator line,
  \<^verbatim>\<open>Write []\<close>; \<^verbatim>\<open>Write_help\<close> keeps the \<^verbatim>\<open>end\<close> argument. The method
  \<^verbatim>\<open>write\<close> is \<open>console_write\<close> here.
\<close>

datatype sink_call =
    Write string
  | Write_error string
  | Write_help string string

text \<open>
  Modelled from the spec: the \<^verbatim>\<open>Environment\<close> class (py2neo/cli/env.py) is not among
  the sources. Of its attributes the tool reads \<^verbatim>\<open>console\<close>, \<^verbatim>\<open>command_prefix\<close> and
  \<^verbatim>\<open>interactive\<close>; everything else it holds (connection, transaction, parameter
  sets, configuration) is the field \<open>session\<close>, of a type the tool never looks into.
  \<^verbatim>\<open>self.console\<close> of the tool and \<^verbatim>\<open>self.env.console\<close> are one object, kept here.
\<close>

record 'c environment =
  console :: "sink_call list"
  command_prefix :: string
  interactive :: bool
  session :: 'c

definition console_write :: "string \<Rightarrow> 'c environment \<Rightarrow> 'c environment" where
  "console_write msg e = e\<lparr>console := console e @ [Write msg]\<rparr>"

definition write_error :: "string \<Rightarrow> 'c environment \<Rightarrow> 'c environment" where
  "write_error msg e = e\<lparr>console := console e @ [Write_error msg]\<rparr>"

definition write_help :: "string \<Rightarrow> string \<Rightarrow> 'c environment \<Rightarrow> 'c environment" where
  "write_help msg ending e = e\<lparr>console := console e @ [Write_help msg ending]\<rparr>"

subsection \<open>Commands and the registry\<close>

text \<open>
  The command classes of py2neo/cli/command.py that the registry names, and the
  \<^verbatim>\<open>HelpCommand\<close> class that \<^verbatim>\<open>__init__\<close> declares.
\<close>

datatype command_class =
    BeginTransactionCommand
  | CommitTransactionCommand
  | RollbackTransactionCommand
  | ListConnectionsCommand
  | ConnectCommand
  | ExitCommand
  | PlayCypherCommand
  | PrintDBMSDetailsCommand
  | ListParameterSetsCommand
  | AppendParameterSetCommand
  | ClearParameterSetsCommand
  | PrintConfigCommand
  | HelpCommand

type_synonym pattern = "string list"

text \<open>
  A dict is the list of its items in iteration order. \<^verbatim>\<open>d[k] = v\<close> replaces the value
  of a key that is there, in its place, and otherwise appends the item.
\<close>

type_synonym registry = "(pattern \<times> command_class) list"

fun setitem :: "pattern \<Rightarrow> command_class \<Rightarrow> registry \<Rightarrow> registry" where
  "setitem k v [] = [(k, v)]"
| "setitem k v ((k', v') # items) =
     (if k' = k then (k, v) # items else (k', v') # setitem k v items)"

text \<open>The class attribute \<^verbatim>\<open>commands\<close>, as the class body writes it.\<close>

definition commands :: registry where
  "commands =
     [([''begin''], BeginTransactionCommand),
      ([''commit''], CommitTransactionCommand),
      ([''rollback''], RollbackTransactionCommand),
      ([''connect''], ListConnectionsCommand),
      ([''connect'', ''<uri>''], ConnectCommand),
      ([''connect'', ''<uri>'', ''<user>'', ''<password>''], ConnectCommand),
      ([''exit''], ExitCommand),
      ([''play''], PlayCypherCommand),
      ([''dbms''], PrintDBMSDetailsCommand),
      ([''params''], ListParameterSetsCommand),
      ([''push''], AppendParameterSetCommand),
      ([''clear''], ClearParameterSetsCommand),
      ([''config''], PrintConfigCommand),
      ([''config'', ''<search_term>''], PrintConfigCommand)]"

text \<open>The registry once \<^verbatim>\<open>__init__\<close> has added the two help patterns.\<close>

definition init_commands :: registry where
  "init_commands =
     setitem [''help'', ''<topic>''] HelpCommand (setitem [''help''] HelpCommand commands)"

subsection \<open>Collaborators\<close>

text \<open>
  What the tool calls and the sources do not hold, as parameters: the theorems below
  are about all of them, and say so where they assume something of a call. A call that
  can raise returns the exception or \<open>()\<close>, and the environment it leaves.
  \<^item> \<open>starts_like_cypher\<close> is \<^verbatim>\<open>py2neo.cypher.lang.starts_like_cypher\<close>;
  \<^item> \<open>run_cypher source\<close> is \<^verbatim>\<open>RunCypherCommand(self.env, source).execute()\<close>;
  \<^item> \<open>execute_command c args\<close> is \<^verbatim>\<open>c(self.env, *args).execute()\<close> for a command
    class of command.py;
  \<^item> \<open>connect uri user password\<close> is \<^verbatim>\<open>self.env.connect(uri, user, password)\<close>;
  \<^item> \<open>has_transaction\<close> and \<open>print_usage_overview\<close> are the methods of the
    environment of these names;
  \<^item> \<open>py2neo_email\<close>, \<open>py2neo_version\<close>, \<open>python_implementation\<close>,
    \<open>python_version\<close> and \<open>system\<close> are the strings the module imports or asks the
    platform for, \<open>python3\<close> is \<^verbatim>\<open>version_info >= (3,)\<close>, and \<open>getenv\<close> is the
    process environment.
\<close>

type_synonym 'c action = "'c environment \<Rightarrow> (exn + unit) \<times> 'c environment"

record 'c collaborators =
  starts_like_cypher :: "string \<Rightarrow> bool"
  run_cypher :: "string \<Rightarrow> 'c action"
  execute_command :: "command_class \<Rightarrow> string list \<Rightarrow> 'c action"
  connect :: "string \<Rightarrow> string \<Rightarrow> string option \<Rightarrow> 'c action"
  has_transaction :: "'c environment \<Rightarrow> bool"
  print_usage_overview :: "registry \<Rightarrow> 'c action"
  py2neo_email :: string
  py2neo_version :: string
  python_implementation :: string
  python_version :: string
  system :: string
  python3 :: bool
  getenv :: "string \<Rightarrow> string option"

text \<open>\<^verbatim>\<open>epilogue = "Report bugs to %s" % py2neo_email\<close>.\<close>

definition epilogue :: "'c collaborators \<Rightarrow> string" where
  "epilogue d = ''Report bugs to '' @ py2neo_email d"

text \<open>
  \<^verbatim>\<open>HelpCommand.execute\<close>: the usage overview of the registry, a blank line, the
  epilogue. The constructor is the one of the base class \<^verbatim>\<open>Command\<close>, which is not
  among the sources; it is taken to accept the environment and any arguments.
\<close>

definition help_execute :: "'c collaborators \<Rightarrow> registry \<Rightarrow> 'c action" where
  "help_execute d items e =
     (case print_usage_overview d items e of
        (Inl x, e') \<Rightarrow> (Inl x, e')
      | (Inr u, e') \<Rightarrow> (Inr (), console_write (epilogue d) (console_write [] e')))"

text \<open>
  \<^verbatim>\<open>command = command_class(self.env, *tokens[1:]); command.execute()\<close>.
\<close>

definition execute :: "'c collaborators \<Rightarrow> registry \<Rightarrow> command_class \<Rightarrow> string list \<Rightarrow> 'c action" where
  "execute d items command_class args e =
     (if command_class = HelpCommand then help_execute d items e
      else execute_command d command_class args e)"

subsection \<open>run_command\<close>

text \<open>
  The \<^verbatim>\<open>for\<close> loop of \<^verbatim>\<open>run_command\<close> over the items still to visit; \<open>items\<close> is
  the whole registry, which \<^verbatim>\<open>HelpCommand\<close> prints. \<^verbatim>\<open>pattern[0]\<close> raises on an
  empty pattern. Past the last item the loop falls through to the error report. The
  tokens are not empty here: \<^verbatim>\<open>run_command\<close> has indexed them before the loop.
\<close>

fun scan :: "'c collaborators \<Rightarrow> registry \<Rightarrow> registry \<Rightarrow> string list \<Rightarrow> 'c action" where
  "scan d items [] tokens e =
     (Inr (), write_error (''Syntax Error: Invalid slash command '' @ [CHR 0x27] @ hd tokens @ [CHR 0x27]) e)"
| "scan d items ((pattern, command_class) # todo) tokens e =
     (case pattern of
        [] \<Rightarrow> (Inl IndexError, e)
      | slash_string # _ \<Rightarrow>
          if hd tokens = slash_string \<and> length tokens = length pattern
          then execute d items command_class (tl tokens) e
          else scan d items todo tokens e)"

text \<open>
  \<^verbatim>\<open>run_command\<close>: \<^verbatim>\<open>shlex_split\<close> may raise \<^verbatim>\<open>ValueError\<close>, and
  \<^verbatim>\<open>tokens[0]\<close> raises \<^verbatim>\<open>IndexError\<close> on an empty list; neither is caught.
\<close>

definition run_command :: "'c collaborators \<Rightarrow> registry \<Rightarrow> string \<Rightarrow> 'c action" where
  "run_command d items source e =
     (case shlex_split source of
        Inl x \<Rightarrow> (Inl x, e)
      | Inr [] \<Rightarrow> (Inl IndexError, e)
      | Inr (t # ts) \<Rightarrow> scan d items items (lower t # ts) e)"

text \<open>
  What the loop compares: the first element of a pattern and the number of its elements,
  against the first token and the number of tokens.
\<close>

definition key :: "pattern \<times> command_class \<Rightarrow> string \<times> nat" where
  "key item = (hd (fst item), length (fst item))"

definition matches :: "string list \<Rightarrow> pattern \<times> command_class \<Rightarrow> bool" where
  "matches tokens item = (key item = (hd tokens, length tokens))"

subsection \<open>runsource\<close>

text \<open>
  The \<^verbatim>\<open>if\<close>/\<^verbatim>\<open>elif\<close> chain of \<^verbatim>\<open>runsource\<close>, up to the value of \<^verbatim>\<open>more\<close>.
  Only \<^verbatim>\<open>CypherSyntaxError\<close> is caught, and only around the query.
\<close>

definition truncated :: "string \<Rightarrow> bool" where
  "truncated message =
     (startswith message ''Unexpected end of input'' \<or>
      startswith message ''Query cannot conclude with'')"

definition classify :: "'c collaborators \<Rightarrow> registry \<Rightarrow> string \<Rightarrow> 'c environment \<Rightarrow> (exn + nat) \<times> 'c environment" where
  "classify d items source0 e =
     (let source = lstrip source0;
          prefix = command_prefix e
      in if source = [] then (Inr 0, e)
         else if startswith source prefix then
           (case run_command d items (drop (length prefix) source) e of
              (Inl x, e') \<Rightarrow> (Inl x, e')
            | (Inr u, e') \<Rightarrow> (Inr 0, e'))
         else if starts_like_cypher d source then
           (case run_cypher d source e of
              (Inr u, e') \<Rightarrow> (Inr 0, e')
            | (Inl (CypherSyntaxError message), e') \<Rightarrow>
                if truncated message then (Inr 1, e')
                else (Inr 0, write_error (''Syntax Error: '' @ message) e')
            | (Inl x, e') \<Rightarrow> (Inl x, e'))
         else (Inr 0, write_error ''Syntax Error: Invalid input'' e))"

text \<open>
  \<^verbatim>\<open>runsource\<close>: the chain, then the blank separator line unless \<^verbatim>\<open>more\<close> is set.
  An exception that leaves the chain leaves \<^verbatim>\<open>runsource\<close> before the separator.
\<close>

definition runsource :: "'c collaborators \<Rightarrow> registry \<Rightarrow> string \<Rightarrow> 'c environment \<Rightarrow> (exn + nat) \<times> 'c environment" where
  "runsource d items source e =
     (case classify d items source e of
        (Inl x, e') \<Rightarrow> (Inl x, e')
      | (Inr more', e') \<Rightarrow> (Inr more', if more' = 0 then console_write [] e' else e'))"

subsection \<open>The tool: construction, prompt, input buffer\<close>

text \<open>
  The instance: \<^verbatim>\<open>self.args\<close>, \<^verbatim>\<open>self.env\<close> (which holds the console),
  \<^verbatim>\<open>self.buffer\<close> of \<^verbatim>\<open>InteractiveConsole\<close>, and \<^verbatim>\<open>self.commands\<close> as the list
  of its items in the order \<^verbatim>\<open>items()\<close> yields them.
\<close>

record 'c tool =
  args :: "string list"
  env :: "'c environment"
  buffer :: "string list"
  self_commands :: registry

text \<open>
  Modelled from the spec: the constructor of \<^verbatim>\<open>Environment\<close> is not among the
  sources. It keeps the console and the interactive flag it is given; the command prefix
  is the default \<^verbatim>\<open>/\<close>; \<open>session0\<close> is the rest of a fresh environment.
\<close>

definition Environment :: "sink_call list \<Rightarrow> bool \<Rightarrow> 'c \<Rightarrow> 'c environment" where
  "Environment con flag session0 =
     \<lparr>console = con, command_prefix = ''/'', interactive = flag, session = session0\<rparr>"

text \<open>
  \<^verbatim>\<open>__init__\<close>: an empty buffer (\<^verbatim>\<open>InteractiveConsole.__init__\<close>), a console with
  nothing written, the environment, and the registry with the two help patterns.
\<close>

definition init :: "string list \<Rightarrow> 'c \<Rightarrow> 'c tool" where
  "init argv session0 =
     \<lparr>args = argv,
      env = Environment [] (length argv = 1) session0,
      buffer = [],
      self_commands = init_commands\<rparr>"

text \<open>\<^verbatim>\<open>prompt\<close>: the two escape sequences, with the colour as \<^verbatim>\<open>%d\<close>.\<close>

definition prompt :: "'c collaborators \<Rightarrow> 'c tool \<Rightarrow> string" where
  "prompt d t =
     (let colour = (if has_transaction d (env t) then 31 else 32 :: nat)
      in if buffer t \<noteq> []
         then [CHR 0x01, CHR 0x1B] @ ''['' @ decimal colour @ ''m'' @ [CHR 0x02] @ ''...'' @
              [CHR 0x01, CHR 0x1B] @ ''[0m'' @ [CHR 0x02] @ '' ''
         else [CHR 0x01, CHR 0x1B] @ ''['' @ decimal colour @ '';1m'' @ [CHR 0x02] @ ''>>>'' @
              [CHR 0x01, CHR 0x1B] @ ''[0m'' @ [CHR 0x02] @ '' '')"

text \<open>
  \<^verbatim>\<open>InteractiveConsole.push\<close> of the standard library, which the tool inherits: the line
  joins the buffer, the buffer joined by newlines goes to \<^verbatim>\<open>runsource\<close>, and the buffer
  is reset unless \<^verbatim>\<open>runsource\<close> asks for more.
\<close>

definition push :: "'c collaborators \<Rightarrow> string \<Rightarrow> 'c tool \<Rightarrow> (exn + nat) \<times> 'c tool" where
  "push d line t =
     (let t1 = t\<lparr>buffer := buffer t @ [line]\<rparr>;
          source = join [CHR 0x0A] (buffer t1)
      in case runsource d (self_commands t1) source (env t1) of
           (Inl x, e') \<Rightarrow> (Inl x, t1\<lparr>env := e'\<rparr>)
         | (Inr more', e') \<Rightarrow>
             (Inr more', if more' = 0 then t1\<lparr>env := e', buffer := []\<rparr> else t1\<lparr>env := e'\<rparr>))"

subsection \<open>use: interactive and batch mode\<close>

definition WELCOME :: "'c collaborators \<Rightarrow> string" where
  "WELCOME d =
     ''Py2neo '' @ py2neo_version d @ '' ('' @ python_implementation d @ '' '' @
     python_version d @ '' on '' @ system d @ '')'' @ [CHR 0x0A] @
     ''Press [TAB] to auto-complete, type '' @ [CHR 0x22] @ ''/help'' @ [CHR 0x22] @
     '' for more information or type'' @ [CHR 0x0A] @
     [CHR 0x22] @ ''/exit'' @ [CHR 0x22] @ '' to exit the console.'' @ [CHR 0x0A]"

definition NEO4J_URI :: "'c collaborators \<Rightarrow> string" where
  "NEO4J_URI d = (case getenv d ''NEO4J_URI'' of None \<Rightarrow> ''localhost'' | Some v \<Rightarrow> v)"

definition NEO4J_USER :: "'c collaborators \<Rightarrow> string" where
  "NEO4J_USER d = (case getenv d ''NEO4J_USER'' of None \<Rightarrow> ''neo4j'' | Some v \<Rightarrow> v)"

definition NEO4J_PASSWORD :: "'c collaborators \<Rightarrow> string option" where
  "NEO4J_PASSWORD d = getenv d ''NEO4J_PASSWORD''"

text \<open>
  What \<^verbatim>\<open>raw_input\<close> does at one prompt, before the end of input: it returns a line,
  or it raises \<^verbatim>\<open>KeyboardInterrupt\<close>.
\<close>

datatype keyboard = Line string | Interrupt

text \<open>
  The read loop of \<^verbatim>\<open>InteractiveConsole.interact\<close> of the standard library. At the end
  of input \<^verbatim>\<open>raw_input\<close> raises \<^verbatim>\<open>EOFError\<close> and the loop ends. A line is
  pushed. \<^verbatim>\<open>KeyboardInterrupt\<close>, from \<^verbatim>\<open>raw_input\<close> or from \<^verbatim>\<open>push\<close>, is the
  one exception the loop catches: it resets the buffer and goes on (its message goes to
  \<^verbatim>\<open>sys.stderr\<close>, not to the console). Any other exception of \<^verbatim>\<open>push\<close> leaves
  the loop.
\<close>

fun read_loop :: "'c collaborators \<Rightarrow> keyboard list \<Rightarrow> 'c tool \<Rightarrow> (exn + unit) \<times> 'c tool" where
  "read_loop d [] t = (Inr (), t)"
| "read_loop d (Interrupt # keys) t = read_loop d keys (t\<lparr>buffer := []\<rparr>)"
| "read_loop d (Line line # keys) t =
     (case push d line t of
        (Inl x, t') \<Rightarrow>
          if x = KeyboardInterrupt then read_loop d keys (t'\<lparr>buffer := []\<rparr>)
          else (Inl x, t')
      | (Inr more', t') \<Rightarrow> read_loop d keys t')"

text \<open>
  \<^verbatim>\<open>interact\<close>: the welcome text through \<^verbatim>\<open>write_help\<close> with an empty \<^verbatim>\<open>end\<close>, a
  blank line under Python 3, then the read loop. Line editing and its history file
  belong to readline and write nothing to the console.
\<close>

definition interact :: "'c collaborators \<Rightarrow> keyboard list \<Rightarrow> 'c tool \<Rightarrow> (exn + unit) \<times> 'c tool" where
  "interact d stdin t =
     (let t1 = t\<lparr>env := write_help (WELCOME d) [] (env t)\<rparr>;
          t2 = (if python3 d then t1\<lparr>env := console_write [] (env t1)\<rparr> else t1)
      in read_loop d stdin t2)"

text \<open>The tool as \<^verbatim>\<open>interact\<close> hands it to the read loop.\<close>

definition welcomed :: "'c collaborators \<Rightarrow> 'c tool \<Rightarrow> 'c tool" where
  "welcomed d t =
     (if python3 d then t\<lparr>env := console_write [] (write_help (WELCOME d) [] (env t))\<rparr>
      else t\<lparr>env := write_help (WELCOME d) [] (env t)\<rparr>)"

text \<open>The \<^verbatim>\<open>for\<close> loop of \<^verbatim>\<open>use\<close> over \<^verbatim>\<open>self.args[1:]\<close>.\<close>

fun batch :: "'c collaborators \<Rightarrow> string list \<Rightarrow> 'c tool \<Rightarrow> (exn + unit) \<times> 'c tool" where
  "batch d [] t = (Inr (), t)"
| "batch d (arg # rest) t =
     (case runsource d (self_commands t) arg (env t) of
        (Inl x, e') \<Rightarrow> (Inl x, t\<lparr>env := e'\<rparr>)
      | (Inr more', e') \<Rightarrow> batch d rest (t\<lparr>env := e'\<rparr>))"

text \<open>
  One cycle of the loop: the tool once \<^verbatim>\<open>runsource\<close> has been called on an argument,
  whether it returned or raised.
\<close>

definition feed :: "'c collaborators \<Rightarrow> 'c tool \<Rightarrow> string \<Rightarrow> 'c tool" where
  "feed d t arg = t\<lparr>env := snd (runsource d (self_commands t) arg (env t))\<rparr>"

text \<open>
  \<^verbatim>\<open>use\<close>: \<^verbatim>\<open>exit(1)\<close> raises \<^verbatim>\<open>SystemExit(1)\<close>; any other exception of
  \<^verbatim>\<open>connect\<close> is not caught.
\<close>

definition use :: "'c collaborators \<Rightarrow> keyboard list \<Rightarrow> 'c tool \<Rightarrow> (exn + unit) \<times> 'c tool" where
  "use d stdin t =
     (case connect d (NEO4J_URI d) (NEO4J_USER d) (NEO4J_PASSWORD d) (env t) of
        (Inl x, e') \<Rightarrow>
          if x = ServiceUnavailable then (Inl (SystemExit 1), t\<lparr>env := e'\<rparr>)
          else (Inl x, t\<lparr>env := e'\<rparr>)
      | (Inr u, e') \<Rightarrow>
          if interactive e' then interact d stdin (t\<lparr>env := e'\<rparr>)
          else batch d (drop 1 (args t)) (t\<lparr>env := e'\<rparr>))"

text \<open>
  \<^verbatim>\<open>main\<close>: \<^verbatim>\<open>args or argv\<close> is \<^verbatim>\<open>argv\<close> when \<^verbatim>\<open>args\<close> is \<^verbatim>\<open>None\<close> or empty.
\<close>

definition main :: "'c collaborators \<Rightarrow> string list \<Rightarrow> string list option \<Rightarrow> keyboard list \<Rightarrow> 'c \<Rightarrow> (exn + unit) \<times> 'c tool" where
  "main d argv args0 stdin session0 =
     use d stdin
       (init (case args0 of None \<Rightarrow> argv | Some a \<Rightarrow> if a = [] then argv else a) session0)"

subsection \<open>A test double for the collaborators\<close>

text \<open>
  A concrete set of collaborators, for the closed instances of the theorems below. The
  session is one boolean, the transaction flag. Text that starts with \<^verbatim>\<open>RETURN\<close> or
  \<^verbatim>\<open>MATCH\<close> looks like Cypher. The query path answers \<^verbatim>\<open>RETURN\<close> alone with
  the truncation error of the server, \<^verbatim>\<open>RETURN )\<close> with another syntax error,
  \<^verbatim>\<open>MATCH\<close> alone with an error that is not a syntax error, and \<^verbatim>\<open>RETURN 0\<close>
  is interrupted from the keyboard; it writes any other statement back to the console.
  The exit command raises \<^verbatim>\<open>SystemExit(0)\<close>; any other command writes its arguments,
  joined by spaces. The server at \<^verbatim>\<open>down\<close> is unavailable.
\<close>

definition double_run_cypher :: "string \<Rightarrow> bool action" where
  "double_run_cypher source e =
     (if source = ''RETURN''
      then (Inl (CypherSyntaxError ''Unexpected end of input: expected whitespace''), e)
      else if source = ''RETURN )''
      then (Inl (CypherSyntaxError ''Invalid input'') , e)
      else if source = ''MATCH''
      then (Inl (OtherError ''connection lost''), e)
      else if source = ''RETURN 0''
      then (Inl KeyboardInterrupt, e)
      else (Inr (), console_write source e))"

definition double_execute_command :: "command_class \<Rightarrow> string list \<Rightarrow> bool action" where
  "double_execute_command c arguments e =
     (if c = ExitCommand then (Inl (SystemExit 0), e)
      else (Inr (), console_write (join '' '' arguments) e))"

definition double_connect :: "string \<Rightarrow> string \<Rightarrow> string option \<Rightarrow> bool action" where
  "double_connect uri user password e =
     (if uri = ''down'' then (Inl ServiceUnavailable, e)
      else if uri = ''locked'' then (Inl (OtherError ''unauthorized''), e)
      else (Inr (), e))"

definition double :: "bool collaborators" where
  "double =
     \<lparr>starts_like_cypher = (\<lambda>s. startswith s ''RETURN'' \<or> startswith s ''MATCH''),
      run_cypher = double_run_cypher,
      execute_command = double_execute_command,
      connect = double_connect,
      has_transaction = session,
      print_usage_overview = (\<lambda>items e. (Inr (), e)),
      py2neo_email = ''py2neo@nige.tech'',
      py2neo_version = ''4'',
      python_implementation = ''CPython'',
      python_version = ''3.6.0'',
      system = ''Linux'',
      python3 = True,
      getenv = (\<lambda>name. None)\<rparr>"

text \<open>A fresh environment of a batch run, with no transaction.\<close>

definition e0 :: "bool environment" where
  "e0 = Environment [] False False"

text \<open>The test double with \<^verbatim>\<open>NEO4J_URI\<close> set to the server that is down.\<close>

definition double_down :: "bool collaborators" where
  "double_down = double\<lparr>getenv := (\<lambda>name. if name = ''NEO4J_URI'' then Some ''down'' else None)\<rparr>"

text \<open>A tool started with no argument but the program name.\<close>

definition t0 :: "bool tool" where
  "t0 = init [''py2neo''] False"

section \<open>Properties\<close>

subsection \<open>Evaluation rules\<close>

lemmas string_simps = startswith_def lstrip_def isspace_def lower_def lower_char_def
lemmas double_simps = double_def double_run_cypher_def double_execute_command_def
  double_connect_def e0_def Environment_def

subsection \<open>The four paths of runsource\<close>

lemma runsource_empty:
  "lstrip source = [] \<Longrightarrow> runsource d items source e = (Inr 0, console_write [] e)"
  by (simp add: runsource_def classify_def)

lemma runsource_command:
  "lstrip source \<noteq> [] \<Longrightarrow> startswith (lstrip source) (command_prefix e) \<Longrightarrow>
   runsource d items source e =
     (case run_command d items (drop (length (command_prefix e)) (lstrip source)) e of
        (Inl x, e') \<Rightarrow> (Inl x, e')
      | (Inr u, e') \<Rightarrow> (Inr 0, console_write [] e'))"
  by (simp add: runsource_def classify_def Let_def split: prod.splits sum.splits)

lemma runsource_query:
  "lstrip source \<noteq> [] \<Longrightarrow> \<not> startswith (lstrip source) (command_prefix e) \<Longrightarrow>
   starts_like_cypher d (lstrip source) \<Longrightarrow>
   runsource d items source e =
     (case run_cypher d (lstrip source) e of
        (Inr u, e') \<Rightarrow> (Inr 0, console_write [] e')
      | (Inl (CypherSyntaxError message), e') \<Rightarrow>
          if truncated message then (Inr 1, e')
          else (Inr 0, console_write [] (write_error (''Syntax Error: '' @ message) e'))
      | (Inl x, e') \<Rightarrow> (Inl x, e'))"
  by (simp add: runsource_def classify_def Let_def split: prod.splits sum.splits exn.splits)

lemma runsource_invalid:
  "lstrip source \<noteq> [] \<Longrightarrow> \<not> startswith (lstrip source) (command_prefix e) \<Longrightarrow>
   \<not> starts_like_cypher d (lstrip source) \<Longrightarrow>
   runsource d items source e =
     (Inr 0, console_write [] (write_error ''Syntax Error: Invalid input'' e))"
  by (simp add: runsource_def classify_def Let_def)

text \<open>A slash command never consults the query path.\<close>

lemma execute_query_free:
  "execute (d\<lparr>starts_like_cypher := slc, run_cypher := rc\<rparr>) items c ts e = execute d items c ts e"
  by (simp add: execute_def help_execute_def epilogue_def split: prod.splits sum.splits)

lemma scan_query_free:
  "scan (d\<lparr>starts_like_cypher := slc, run_cypher := rc\<rparr>) items todo tokens e =
   scan d items todo tokens e"
proof (induction todo)
  case Nil
  show ?case by simp
next
  case (Cons item todo)
  obtain pattern c where item: "item = (pattern, c)" by (cases item)
  show ?case
    unfolding item using Cons.IH
    by (cases pattern) (simp_all add: execute_query_free)
qed

lemma run_command_query_free:
  "run_command (d\<lparr>starts_like_cypher := slc, run_cypher := rc\<rparr>) items source e =
   run_command d items source e"
  by (simp add: run_command_def scan_query_free split: sum.splits list.splits)

text \<open>
  Claim C3. For every input line, \<^verbatim>\<open>runsource\<close> classifies the line, stripped of its
  leading whitespace, in a fixed order of precedence. An empty line runs no handler: only
  the separator is written. Otherwise a line that starts with the command prefix is
  dispatched as a slash command, with the prefix cut off, and never reaches the query
  path: the result is the same whatever \<^verbatim>\<open>starts_like_cypher\<close> and the query path
  are. Otherwise text that looks like Cypher goes through the query path. Otherwise
  \<^verbatim>\<open>Syntax Error: Invalid input\<close> is reported and no handler runs.
\<close>

theorem runsource_precedence:
  "(lstrip source = [] \<longrightarrow> runsource d items source e = (Inr 0, console_write [] e)) \<and>
   (lstrip source \<noteq> [] \<and> startswith (lstrip source) (command_prefix e) \<longrightarrow>
      runsource d items source e =
        (case run_command d items (drop (length (command_prefix e)) (lstrip source)) e of
           (Inl x, e') \<Rightarrow> (Inl x, e')
         | (Inr u, e') \<Rightarrow> (Inr 0, console_write [] e')) \<and>
      runsource (d\<lparr>starts_like_cypher := slc, run_cypher := rc\<rparr>) items source e =
        runsource d items source e) \<and>
   (lstrip source \<noteq> [] \<and> \<not> startswith (lstrip source) (command_prefix e) \<and>
    starts_like_cypher d (lstrip source) \<longrightarrow>
      runsource d items source e =
        (case run_cypher d (lstrip source) e of
           (Inr u, e') \<Rightarrow> (Inr 0, console_write [] e')
         | (Inl (CypherSyntaxError message), e') \<Rightarrow>
             if truncated message then (Inr 1, e')
             else (Inr 0, console_write [] (write_error (''Syntax Error: '' @ message) e'))
         | (Inl x, e') \<Rightarrow> (Inl x, e'))) \<and>
   (lstrip source \<noteq> [] \<and> \<not> startswith (lstrip source) (command_prefix e) \<and>
    \<not> starts_like_cypher d (lstrip source) \<longrightarrow>
      runsource d items source e =
        (Inr 0, console_write [] (write_error ''Syntax Error: Invalid input'' e)))"
proof (intro conjI impI)
  assume "lstrip source = []"
  then show "runsource d items source e = (Inr 0, console_write [] e)"
    by (rule runsource_empty)
next
  assume h: "lstrip source \<noteq> [] \<and> startswith (lstrip source) (command_prefix e)"
  then show "runsource d items source e =
        (case run_command d items (drop (length (command_prefix e)) (lstrip source)) e of
           (Inl x, e') \<Rightarrow> (Inl x, e')
         | (Inr u, e') \<Rightarrow> (Inr 0, console_write [] e'))"
    by (simp add: runsource_command)
  from h have "startswith (lstrip source) (command_prefix (e))" by simp
  with h show "runsource (d\<lparr>starts_like_cypher := slc, run_cypher := rc\<rparr>) items source e =
        runsource d items source e"
    by (simp add: runsource_command run_command_query_free)
next
  assume "lstrip source \<noteq> [] \<and> \<not> startswith (lstrip source) (command_prefix e) \<and>
    starts_like_cypher d (lstrip source)"
  then show "runsource d items source e =
        (case run_cypher d (lstrip source) e of
           (Inr u, e') \<Rightarrow> (Inr 0, console_write [] e')
         | (Inl (CypherSyntaxError message), e') \<Rightarrow>
             if truncated message then (Inr 1, e')
             else (Inr 0, console_write [] (write_error (''Syntax Error: '' @ message) e'))
         | (Inl x, e') \<Rightarrow> (Inl x, e'))"
    by (simp add: runsource_query)
next
  assume "lstrip source \<noteq> [] \<and> \<not> startswith (lstrip source) (command_prefix e) \<and>
    \<not> starts_like_cypher d (lstrip source)"
  then show "runsource d items source e =
        (Inr 0, console_write [] (write_error ''Syntax Error: Invalid input'' e))"
    by (simp add: runsource_invalid)
qed

text \<open>The precedence on four lines of the test double: blank, slash command, query, neither.\<close>

lemma double_run_command_return:
  "run_command double init_commands ''RETURN 1'' e0 =
     (Inr (), write_error (''Syntax Error: Invalid slash command '' @ [CHR 0x27] @ ''return'' @ [CHR 0x27]) e0)"
  by code_simp

theorem runsource_precedence_witness:
  "runsource double init_commands ''   '' e0 = (Inr 0, console_write [] e0) \<and>
   runsource double init_commands '' /RETURN 1'' e0 =
     (Inr 0, console_write []
        (write_error (''Syntax Error: Invalid slash command '' @ [CHR 0x27] @ ''return'' @ [CHR 0x27]) e0)) \<and>
   runsource (double\<lparr>starts_like_cypher := (\<lambda>s. True), run_cypher := (\<lambda>s e. (Inr (), e))\<rparr>)
       init_commands '' /RETURN 1'' e0 =
     runsource double init_commands '' /RETURN 1'' e0 \<and>
   runsource double init_commands ''RETURN 1'' e0 =
     (Inr 0, console_write [] (console_write ''RETURN 1'' e0)) \<and>
   runsource double init_commands ''hello'' e0 =
     (Inr 0, console_write [] (write_error ''Syntax Error: Invalid input'' e0))"
proof -
  have blank: "lstrip ''   '' = []"
    by (simp add: string_simps)
  have slash: "lstrip '' /RETURN 1'' = ''/RETURN 1''" "command_prefix e0 = ''/''"
    by (simp_all add: string_simps double_simps)
  have query: "lstrip ''RETURN 1'' = ''RETURN 1''" "starts_like_cypher double ''RETURN 1''"
    by (simp_all add: string_simps double_simps)
  have other: "lstrip ''hello'' = ''hello''" "\<not> starts_like_cypher double ''hello''"
    by (simp_all add: string_simps double_simps)
  note thm1 = runsource_precedence [where source = "''   ''" and d = double and items = init_commands and e = e0]
  note thm2 = runsource_precedence [where source = "'' /RETURN 1''" and d = double and items = init_commands
      and e = e0 and slc = "\<lambda>s. True" and rc = "\<lambda>s e. (Inr (), e)"]
  note thm3 = runsource_precedence [where source = "''RETURN 1''" and d = double and items = init_commands and e = e0]
  note thm4 = runsource_precedence [where source = "''hello''" and d = double and items = init_commands and e = e0]
  from thm1 blank have 1: "runsource double init_commands ''   '' e0 = (Inr 0, console_write [] e0)"
    by simp
  from thm2 slash have 2: "runsource double init_commands '' /RETURN 1'' e0 =
     (Inr 0, console_write []
        (write_error (''Syntax Error: Invalid slash command '' @ [CHR 0x27] @ ''return'' @ [CHR 0x27]) e0))"
    and 3: "runsource (double\<lparr>starts_like_cypher := (\<lambda>s. True), run_cypher := (\<lambda>s e. (Inr (), e))\<rparr>)
       init_commands '' /RETURN 1'' e0 = runsource double init_commands '' /RETURN 1'' e0"
    by (simp_all add: startswith_def double_run_command_return)
  from thm3 query slash(2) have 4: "runsource double init_commands ''RETURN 1'' e0 =
     (Inr 0, console_write [] (console_write ''RETURN 1'' e0))"
    by (simp add: startswith_def double_def double_run_cypher_def)
  from thm4 other slash(2) have 5: "runsource double init_commands ''hello'' e0 =
     (Inr 0, console_write [] (write_error ''Syntax Error: Invalid input'' e0))"
    by (simp add: startswith_def)
  from 1 2 3 4 5 show ?thesis by blast
qed

subsection \<open>Continuation\<close>

lemma runsource_more_iff:
  assumes "lstrip source \<noteq> []" "\<not> startswith (lstrip source) (command_prefix e)"
    "starts_like_cypher d (lstrip source)"
  shows "(fst (runsource d items source e) = Inr 1) =
         (\<exists>message. fst (run_cypher d (lstrip source) e) = Inl (CypherSyntaxError message) \<and>
            truncated message)"
proof (cases "run_cypher d (lstrip source) e")
  case (Pair r e')
  show ?thesis
  proof (cases r)
    case (Inr u)
    with Pair assms show ?thesis by (simp add: runsource_query)
  next
    case (Inl x)
    with Pair assms show ?thesis by (cases x) (simp_all add: runsource_query)
  qed
qed

lemma runsource_more_silent:
  assumes "lstrip source \<noteq> []" "\<not> startswith (lstrip source) (command_prefix e)"
    "starts_like_cypher d (lstrip source)"
    and more: "fst (runsource d items source e) = Inr 1"
  shows "snd (runsource d items source e) = snd (run_cypher d (lstrip source) e)"
proof (cases "run_cypher d (lstrip source) e")
  case (Pair r e')
  show ?thesis
  proof (cases r)
    case (Inr u)
    with Pair assms show ?thesis by (simp add: runsource_query)
  next
    case (Inl x)
    with Pair assms show ?thesis
      by (cases x) (simp_all add: runsource_query split: if_splits)
  qed
qed

lemma runsource_hard_error:
  assumes "lstrip source \<noteq> []" "\<not> startswith (lstrip source) (command_prefix e)"
    "starts_like_cypher d (lstrip source)"
    and "run_cypher d (lstrip source) e = (Inl (CypherSyntaxError message), e')"
    and "\<not> truncated message"
  shows "runsource d items source e =
           (Inr 0, console_write [] (write_error (''Syntax Error: '' @ message) e'))"
  using assms by (simp add: runsource_query)

lemma push_result:
  "fst (push d line t) =
   fst (runsource d (self_commands t) (join [CHR 0x0A] (buffer t @ [line])) (env t))"
  by (simp add: push_def Let_def split: prod.splits sum.splits)

lemma push_buffer:
  "buffer (snd (push d line t)) =
     (if fst (push d line t) = Inr 0 then [] else buffer t @ [line])"
  by (simp add: push_def Let_def split: prod.splits sum.splits)

text \<open>
  Claim C1. For every buffer that reaches the query path (not empty once stripped, not a
  slash command, and like Cypher), \<^verbatim>\<open>runsource\<close> returns 1 if and only if the query
  path raises a \<^verbatim>\<open>CypherSyntaxError\<close> whose message starts with
  \<^verbatim>\<open>Unexpected end of input\<close> or with \<^verbatim>\<open>Query cannot conclude with\<close>. It then
  leaves the environment as the query path left it: no error and no separator line are
  written, and \<^verbatim>\<open>push\<close> keeps the buffer with the new line. Any other
  \<^verbatim>\<open>CypherSyntaxError\<close> is reported by one \<^verbatim>\<open>write_error\<close> of
  \<^verbatim>\<open>Syntax Error: \<close> and the message, \<^verbatim>\<open>runsource\<close> returns 0, and \<^verbatim>\<open>push\<close>
  empties the buffer.
\<close>

theorem runsource_continuation:
  assumes "lstrip source \<noteq> []" and "\<not> startswith (lstrip source) (command_prefix e)"
    and "starts_like_cypher d (lstrip source)"
  shows
    "((fst (runsource d items source e) = Inr 1) =
      (\<exists>message. fst (run_cypher d (lstrip source) e) = Inl (CypherSyntaxError message) \<and>
         (startswith message ''Unexpected end of input'' \<or>
          startswith message ''Query cannot conclude with''))) \<and>
     (fst (runsource d items source e) = Inr 1 \<longrightarrow>
        snd (runsource d items source e) = snd (run_cypher d (lstrip source) e)) \<and>
     (\<forall>message e'.
        run_cypher d (lstrip source) e = (Inl (CypherSyntaxError message), e') \<and>
        \<not> startswith message ''Unexpected end of input'' \<and>
        \<not> startswith message ''Query cannot conclude with'' \<longrightarrow>
        runsource d items source e =
          (Inr 0, console_write [] (write_error (''Syntax Error: '' @ message) e'))) \<and>
     (\<forall>t line.
        env t = e \<and> self_commands t = items \<and> join [CHR 0x0A] (buffer t @ [line]) = source \<longrightarrow>
        fst (push d line t) = fst (runsource d items source e) \<and>
        (fst (push d line t) = Inr 1 \<longrightarrow> buffer (snd (push d line t)) = buffer t @ [line]) \<and>
        (fst (push d line t) = Inr 0 \<longrightarrow> buffer (snd (push d line t)) = []))"
proof (intro conjI allI impI)
  show "(fst (runsource d items source e) = Inr 1) =
      (\<exists>message. fst (run_cypher d (lstrip source) e) = Inl (CypherSyntaxError message) \<and>
         (startswith message ''Unexpected end of input'' \<or>
          startswith message ''Query cannot conclude with''))"
    using runsource_more_iff [OF assms] by (simp add: truncated_def)
next
  assume "fst (runsource d items source e) = Inr 1"
  then show "snd (runsource d items source e) = snd (run_cypher d (lstrip source) e)"
    by (rule runsource_more_silent [OF assms])
next
  fix message e'
  assume "run_cypher d (lstrip source) e = (Inl (CypherSyntaxError message), e') \<and>
        \<not> startswith message ''Unexpected end of input'' \<and>
        \<not> startswith message ''Query cannot conclude with''"
  then show "runsource d items source e =
          (Inr 0, console_write [] (write_error (''Syntax Error: '' @ message) e'))"
    using runsource_hard_error [OF assms] by (simp add: truncated_def)
next
  fix t :: "'a tool" and line
  assume "env t = e \<and> self_commands t = items \<and> join [CHR 0x0A] (buffer t @ [line]) = source"
  then show "fst (push d line t) = fst (runsource d items source e)"
    using push_result [of d line t] by simp
next
  fix t :: "'a tool" and line
  assume "fst (push d line t) = Inr 1"
  then show "buffer (snd (push d line t)) = buffer t @ [line]"
    by (simp add: push_buffer)
next
  fix t :: "'a tool" and line
  assume "fst (push d line t) = Inr 0"
  then show "buffer (snd (push d line t)) = []"
    by (simp add: push_buffer)
qed

text \<open>
  On the test double: \<^verbatim>\<open>RETURN\<close> alone is truncated and asks for more;
  \<^verbatim>\<open>RETURN )\<close> is a hard error, reported; pushed as lines, the first keeps the
  buffer and the second empties it.
\<close>

lemma double_truncated:
  "lstrip ''RETURN'' \<noteq> [] \<and> \<not> startswith (lstrip ''RETURN'') (command_prefix e0) \<and>
   starts_like_cypher double (lstrip ''RETURN'')"
  by code_simp

lemma double_hard:
  "lstrip ''RETURN )'' \<noteq> [] \<and> \<not> startswith (lstrip ''RETURN )'') (command_prefix e0) \<and>
   starts_like_cypher double (lstrip ''RETURN )'') \<and>
   run_cypher double (lstrip ''RETURN )'') e0 = (Inl (CypherSyntaxError ''Invalid input''), e0) \<and>
   \<not> startswith ''Invalid input'' ''Unexpected end of input'' \<and>
   \<not> startswith ''Invalid input'' ''Query cannot conclude with''"
  by code_simp

lemma double_t0:
  "env (t0\<lparr>env := e0\<rparr>) = e0 \<and> self_commands (t0\<lparr>env := e0\<rparr>) = init_commands \<and>
   join [CHR 0x0A] (buffer (t0\<lparr>env := e0\<rparr>) @ [''RETURN'']) = ''RETURN'' \<and>
   join [CHR 0x0A] (buffer (t0\<lparr>env := e0\<rparr>) @ [''RETURN )'']) = ''RETURN )'' \<and>
   buffer (t0\<lparr>env := e0\<rparr>) = []"
  by (simp add: t0_def init_def)

lemma double_more: "fst (runsource double init_commands ''RETURN'' e0) = Inr 1"
  by code_simp

theorem runsource_continuation_witness:
  "fst (runsource double init_commands ''RETURN'' e0) = Inr 1 \<and>
   snd (runsource double init_commands ''RETURN'' e0) = snd (run_cypher double (lstrip ''RETURN'') e0) \<and>
   buffer (snd (push double ''RETURN'' (t0\<lparr>env := e0\<rparr>))) = [''RETURN''] \<and>
   runsource double init_commands ''RETURN )'' e0 =
     (Inr 0, console_write [] (write_error ''Syntax Error: Invalid input'' e0)) \<and>
   buffer (snd (push double ''RETURN )'' (t0\<lparr>env := e0\<rparr>))) = []"
proof -
  note soft = runsource_continuation [where source = "''RETURN''" and d = double and e = e0
      and items = init_commands]
  note hard = runsource_continuation [where source = "''RETURN )''" and d = double and e = e0
      and items = init_commands]
  from soft double_truncated double_more
  have 1: "snd (runsource double init_commands ''RETURN'' e0) = snd (run_cypher double (lstrip ''RETURN'') e0)"
    by blast
  from soft double_truncated double_more double_t0
  have 2: "buffer (snd (push double ''RETURN'' (t0\<lparr>env := e0\<rparr>))) = [] @ [''RETURN'']"
    by metis
  from hard double_hard
  have 3: "runsource double init_commands ''RETURN )'' e0 =
     (Inr 0, console_write [] (write_error (''Syntax Error: '' @ ''Invalid input'') e0))"
    by blast
  with hard double_hard double_t0
  have 4: "buffer (snd (push double ''RETURN )'' (t0\<lparr>env := e0\<rparr>))) = []"
    by (metis fst_conv)
  from double_more 1 2 3 4 show ?thesis by simp
qed

subsection \<open>The separator line\<close>

lemma runsource_returns:
  "runsource d items source e = (Inr more', e') \<Longrightarrow>
   \<exists>e_mid. classify d items source e = (Inr more', e_mid) \<and>
     e' = (if more' = 0 then console_write [] e_mid else e_mid)"
  by (auto simp: runsource_def split: prod.splits sum.splits)

lemma classify_paths:
  assumes "classify d items source e = (Inr more', e_mid)"
  shows
    "(more' = 0 \<and>
       (lstrip source = [] \<and> e_mid = e \<or>
        lstrip source \<noteq> [] \<and> startswith (lstrip source) (command_prefix e) \<and>
          run_command d items (drop (length (command_prefix e)) (lstrip source)) e = (Inr (), e_mid) \<or>
        lstrip source \<noteq> [] \<and> \<not> startswith (lstrip source) (command_prefix e) \<and>
          starts_like_cypher d (lstrip source) \<and>
          run_cypher d (lstrip source) e = (Inr (), e_mid) \<or>
        lstrip source \<noteq> [] \<and> \<not> startswith (lstrip source) (command_prefix e) \<and>
          starts_like_cypher d (lstrip source) \<and>
          (\<exists>message e''. run_cypher d (lstrip source) e = (Inl (CypherSyntaxError message), e'') \<and>
             \<not> truncated message \<and> e_mid = write_error (''Syntax Error: '' @ message) e'') \<or>
        lstrip source \<noteq> [] \<and> \<not> startswith (lstrip source) (command_prefix e) \<and>
          \<not> starts_like_cypher d (lstrip source) \<and>
          e_mid = write_error ''Syntax Error: Invalid input'' e)) \<or>
     (more' = 1 \<and>
        lstrip source \<noteq> [] \<and> \<not> startswith (lstrip source) (command_prefix e) \<and>
        starts_like_cypher d (lstrip source) \<and>
        (\<exists>message. run_cypher d (lstrip source) e = (Inl (CypherSyntaxError message), e_mid) \<and>
           truncated message))"
proof (cases "lstrip source = []")
  case True
  with assms show ?thesis by (simp add: classify_def)
next
  case nonempty: False
  show ?thesis
  proof (cases "startswith (lstrip source) (command_prefix e)")
    case True
    with nonempty assms show ?thesis
      by (auto simp: classify_def Let_def split: prod.splits sum.splits)
  next
    case no_command: False
    show ?thesis
    proof (cases "starts_like_cypher d (lstrip source)")
      case False
      with nonempty no_command assms show ?thesis
        by (simp add: classify_def Let_def)
    next
      case True
      obtain r e'' where rc: "run_cypher d (lstrip source) e = (r, e'')"
        by (cases "run_cypher d (lstrip source) e")
      show ?thesis
      proof (cases r)
        case (Inr u)
        with rc True nonempty no_command assms show ?thesis
          by (simp add: classify_def Let_def)
      next
        case (Inl x)
        with rc True nonempty no_command assms show ?thesis
          by (cases x) (auto simp: classify_def Let_def split: if_splits)
      qed
    qed
  qed
qed

lemma classify_raises:
  assumes "classify d items source e = (Inl x, e')"
  shows
    "lstrip source \<noteq> [] \<and> startswith (lstrip source) (command_prefix e) \<and>
       run_command d items (drop (length (command_prefix e)) (lstrip source)) e = (Inl x, e') \<or>
     lstrip source \<noteq> [] \<and> \<not> startswith (lstrip source) (command_prefix e) \<and>
       starts_like_cypher d (lstrip source) \<and>
       run_cypher d (lstrip source) e = (Inl x, e') \<and> (\<forall>message. x \<noteq> CypherSyntaxError message)"
proof (cases "lstrip source = []")
  case True
  with assms show ?thesis by (simp add: classify_def)
next
  case nonempty: False
  show ?thesis
  proof (cases "startswith (lstrip source) (command_prefix e)")
    case True
    with nonempty assms show ?thesis
      by (auto simp: classify_def Let_def split: prod.splits sum.splits)
  next
    case no_command: False
    show ?thesis
    proof (cases "starts_like_cypher d (lstrip source)")
      case False
      with nonempty no_command assms show ?thesis
        by (simp add: classify_def Let_def)
    next
      case True
      obtain r e'' where rc: "run_cypher d (lstrip source) e = (r, e'')"
        by (cases "run_cypher d (lstrip source) e")
      show ?thesis
      proof (cases r)
        case (Inr u)
        with rc True nonempty no_command assms show ?thesis
          by (simp add: classify_def Let_def)
      next
        case (Inl y)
        with rc True nonempty no_command assms show ?thesis
          by (cases y) (auto simp: classify_def Let_def split: if_splits)
      qed
    qed
  qed
qed

lemma runsource_raises:
  "runsource d items source e = (Inl x, e') \<Longrightarrow> classify d items source e = (Inl x, e')"
  by (auto simp: runsource_def split: prod.splits sum.splits)

text \<open>
  Claim C4, as stated, fails: not every path through \<^verbatim>\<open>runsource\<close> reaches the
  separator. On the line \<^verbatim>\<open>/config 'a\<close> the tokenizer's \<^verbatim>\<open>ValueError\<close> leaves
  \<^verbatim>\<open>runsource\<close>: no continuation is signalled, and no separator line is written.
\<close>

theorem exception_skips_separator:
  "runsource double init_commands (''/config '' @ [CHR 0x27] @ ''a'') e0 =
     (Inl (ValueError ''No closing quotation''), e0) \<and> console e0 = []"
  by code_simp

text \<open>
  Claim C4, amended. Every call of \<^verbatim>\<open>runsource\<close> ends in one of three ways. It
  returns 0, and has then written the blank separator line, once and last: the
  environment is the one its path left (\<open>e_mid\<close>: the empty line, the slash command
  that returned, the query that succeeded, the hard syntax error reported, the invalid
  input reported) with one \<^verbatim>\<open>Write []\<close> appended. It returns 1, the continuation, and
  has appended nothing to what the query path left when it raised. Or an exception of
  the slash command or of the query path leaves \<^verbatim>\<open>runsource\<close>, and nothing is appended
  to what the raising call left: no separator.
\<close>

theorem separator_iff_returns_zero:
  assumes "runsource d items source e = (r, e')"
  shows
    "(r = Inr 0 \<and>
      (\<exists>e_mid. e' = console_write [] e_mid \<and> console e' = console e_mid @ [Write []] \<and>
         (lstrip source = [] \<and> e_mid = e \<or>
          lstrip source \<noteq> [] \<and> startswith (lstrip source) (command_prefix e) \<and>
            run_command d items (drop (length (command_prefix e)) (lstrip source)) e = (Inr (), e_mid) \<or>
          lstrip source \<noteq> [] \<and> \<not> startswith (lstrip source) (command_prefix e) \<and>
            starts_like_cypher d (lstrip source) \<and>
            run_cypher d (lstrip source) e = (Inr (), e_mid) \<or>
          lstrip source \<noteq> [] \<and> \<not> startswith (lstrip source) (command_prefix e) \<and>
            starts_like_cypher d (lstrip source) \<and>
            (\<exists>message e''. run_cypher d (lstrip source) e = (Inl (CypherSyntaxError message), e'') \<and>
               \<not> truncated message \<and> e_mid = write_error (''Syntax Error: '' @ message) e'') \<or>
          lstrip source \<noteq> [] \<and> \<not> startswith (lstrip source) (command_prefix e) \<and>
            \<not> starts_like_cypher d (lstrip source) \<and>
            e_mid = write_error ''Syntax Error: Invalid input'' e))) \<or>
     (r = Inr 1 \<and>
        lstrip source \<noteq> [] \<and> \<not> startswith (lstrip source) (command_prefix e) \<and>
        starts_like_cypher d (lstrip source) \<and>
        (\<exists>message. run_cypher d (lstrip source) e = (Inl (CypherSyntaxError message), e') \<and>
           truncated message)) \<or>
     (\<exists>x. r = Inl x \<and>
        (lstrip source \<noteq> [] \<and> startswith (lstrip source) (command_prefix e) \<and>
           run_command d items (drop (length (command_prefix e)) (lstrip source)) e = (Inl x, e') \<or>
         lstrip source \<noteq> [] \<and> \<not> startswith (lstrip source) (command_prefix e) \<and>
           starts_like_cypher d (lstrip source) \<and>
           run_cypher d (lstrip source) e = (Inl x, e') \<and>
           (\<forall>message. x \<noteq> CypherSyntaxError message)))"
    (is "(_ \<and> (\<exists>m. _ \<and> _ \<and> ?five m)) \<or> _ \<or> _")
proof (cases r)
  case (Inl x)
  with assms have "classify d items source e = (Inl x, e')"
    by (simp add: runsource_raises)
  from classify_raises [OF this] Inl show ?thesis by blast
next
  case (Inr more')
  with assms have returned: "runsource d items source e = (Inr more', e')" by simp
  from runsource_returns [OF returned] obtain e_mid
    where mid: "classify d items source e = (Inr more', e_mid)"
      and e': "e' = (if more' = 0 then console_write [] e_mid else e_mid)"
    by blast
  note paths = classify_paths [OF mid]
  show ?thesis
  proof (cases "more' = 0")
    case True
    with paths have "?five e_mid" by simp
    moreover from True e' have "e' = console_write [] e_mid" by simp
    moreover from this have "console e' = console e_mid @ [Write []]"
      by (simp add: console_write_def)
    ultimately show ?thesis using True Inr by blast
  next
    case False
    with paths e' Inr show ?thesis by simp
  qed
qed

lemma double_query: "runsource double init_commands ''RETURN 1'' e0 =
    (Inr 0, console_write [] (console_write ''RETURN 1'' e0))"
  by code_simp

lemma double_query_console:
  "console (console_write [] (console_write ''RETURN 1'' e0)) = [Write ''RETURN 1'', Write []]"
  by code_simp

theorem separator_iff_returns_zero_witness:
  "runsource double init_commands ''RETURN 1'' e0 =
     (Inr 0, console_write [] (console_write ''RETURN 1'' e0)) \<and>
   console (snd (runsource double init_commands ''RETURN 1'' e0)) = [Write ''RETURN 1'', Write []] \<and>
   (\<exists>e_mid. console_write [] (console_write ''RETURN 1'' e0) = console_write [] e_mid \<and>
      console (console_write [] (console_write ''RETURN 1'' e0)) = console e_mid @ [Write []])"
  using separator_iff_returns_zero [OF double_query] double_query double_query_console
  by auto
subsection \<open>The prompt\<close>

lemma decimal_colours: "decimal 31 = ''31''" "decimal 32 = ''32''"
  by code_simp+

text \<open>
  Claim C9. The prompt is a function of two booleans. The colour code is 31 when the
  environment has a transaction and 32 when it has none, and nothing else enters it; the
  marker is \<^verbatim>\<open>...\<close> when the buffer is not empty and \<^verbatim>\<open>>>>\<close> (in bold, \<^verbatim>\<open>;1\<close>)
  when it is.
\<close>

theorem prompt_two_booleans:
  "prompt d t =
     [CHR 0x01, CHR 0x1B] @ ''['' @
     (if has_transaction d (env t) then ''31'' else ''32'') @
     (if buffer t \<noteq> [] then ''m'' else '';1m'') @ [CHR 0x02] @
     (if buffer t \<noteq> [] then ''...'' else ''>>>'') @
     [CHR 0x01, CHR 0x1B] @ ''[0m'' @ [CHR 0x02] @ '' ''"
  by (simp add: prompt_def Let_def decimal_colours del: decimal.simps)
subsection \<open>The prefix alone\<close>

lemma read_token_blank:
  "set ws \<subseteq> set whitespace \<Longrightarrow>
   read_token ws (Some (CHR '' '')) [] False escapedstate = Inr (None, [], None)"
  by (induction ws) (simp_all add: emit_def)

lemma shlex_split_blank: "set ws \<subseteq> set whitespace \<Longrightarrow> shlex_split ws = Inr []"
  by (simp add: shlex_split_def read_token_blank)

lemma lstrip_prefix:
  "p \<noteq> [] \<Longrightarrow> \<not> isspace (hd p) \<Longrightarrow> lstrip (p @ ws) = p @ ws"
  by (cases p) (simp_all add: lstrip_def)

lemma double_prefix:
  "command_prefix e0 = ''/''" "\<not> isspace CHR ''/''" "set '' '' \<subseteq> set whitespace"
  by (simp_all add: e0_def Environment_def isspace_def whitespace_def)

lemma space_plain: "CHR '' '' \<notin> set quotes" "CHR '' '' \<notin> set escape"
  by (simp_all add: quotes_def escape_def)

lemma read_token_started:
  "c \<in> set quotes \<or> c \<in> set escape \<or> token \<noteq> [] \<or> quoted \<Longrightarrow>
   read_token inp (Some c) token quoted escapedstate \<noteq> Inr (None, rest, state')"
proof (induction inp arbitrary: c token quoted escapedstate)
  case Nil
  then show ?case by (auto simp: emit_def space_plain)
next
  case (Cons nextchar inp)
  note IH = Cons.IH
  show ?case
  proof (cases "c = CHR '' ''")
    case True
    with Cons.prems have started: "token \<noteq> [] \<or> quoted"
      by (auto simp: space_plain)
    with True IH show ?thesis by (auto simp: emit_def)
  next
    case not_space: False
    show ?thesis
    proof (cases "c \<in> set quotes")
      case True
      with not_space IH show ?thesis by auto
    next
      case not_quote: False
      show ?thesis
      proof (cases "c \<in> set escape")
        case True
        with not_space not_quote IH show ?thesis by auto
      next
        case False
        with not_space not_quote Cons.prems have started: "token \<noteq> [] \<or> quoted" by simp
        with False not_space not_quote IH show ?thesis by (auto simp: emit_def)
      qed
    qed
  qed
qed

lemma read_token_None_blank:
  "read_token ws (Some (CHR '' '')) [] False escapedstate = Inr (None, rest, state') \<Longrightarrow>
   set ws \<subseteq> set whitespace"
proof (induction ws arbitrary: escapedstate)
  case Nil
  show ?case by simp
next
  case (Cons c ws)
  show ?case
  proof (cases "c \<in> set whitespace")
    case True
    with Cons.prems have "read_token ws (Some (CHR '' '')) [] False escapedstate = Inr (None, rest, state')"
      by simp
    then have "set ws \<subseteq> set whitespace" by (rule Cons.IH)
    with True show ?thesis by simp
  next
    case False
    have "read_token (c # ws) (Some (CHR '' '')) [] False escapedstate \<noteq> Inr (None, rest, state')"
      using False by (simp add: read_token_started)
    with Cons.prems show ?thesis by simp
  qed
qed

lemma shlex_split_empty_iff: "shlex_split ws = Inr [] \<longleftrightarrow> set ws \<subseteq> set whitespace"
proof
  assume "set ws \<subseteq> set whitespace"
  then show "shlex_split ws = Inr []" by (rule shlex_split_blank)
next
  assume empty: "shlex_split ws = Inr []"
  show "set ws \<subseteq> set whitespace"
  proof (cases "read_token ws (Some (CHR '' '')) [] False (CHR '' '')")
    case (Inl x)
    with empty show ?thesis by (simp add: shlex_split_def)
  next
    case (Inr result)
    obtain r rest state' where result: "result = (r, rest, state')" by (cases result)
    show ?thesis
    proof (cases r)
      case None
      with Inr result show ?thesis by (auto dest: read_token_None_blank)
    next
      case (Some tok)
      with Inr result empty show ?thesis
        by (simp add: shlex_split_def split: sum.splits)
    qed
  qed
qed

text \<open>
  Claim C10, as stated, fails for whitespace that the tokenizer does not split on. The
  vertical tab is whitespace for \<^verbatim>\<open>str.isspace\<close>, but for \<^verbatim>\<open>shlex\<close> it is a
  character of a word: the line \<^verbatim>\<open>/\<close> followed by a vertical tab has one token, the
  invalid slash command is reported, and \<^verbatim>\<open>runsource\<close> returns 0.
\<close>

theorem vertical_tab_is_a_token:
  "isspace (CHR 0x0B) \<and>
   runsource double init_commands (''/'' @ [CHR 0x0B]) e0 =
     (Inr 0, console_write []
        (write_error (''Syntax Error: Invalid slash command '' @ [CHR 0x27, CHR 0x0B, CHR 0x27]) e0))"
  by code_simp

text \<open>
  Claim C10, amended. Take a prefix that a stripped line can start with: not empty, and
  not starting with whitespace. A line that is the prefix alone, or the prefix followed
  only by characters the tokenizer splits on (space, tab, carriage return, line feed),
  reaches \<^verbatim>\<open>run_command\<close> with text that tokenizes to the empty list;
  \<^verbatim>\<open>tokens[0]\<close> raises \<^verbatim>\<open>IndexError\<close>, which leaves \<^verbatim>\<open>runsource\<close> uncaught, and
  nothing is written: no report of an invalid slash command, no separator. Text with any
  other character does not tokenize to the empty list.
\<close>

theorem prefix_then_blank_raises:
  assumes "command_prefix e \<noteq> []" and "\<not> isspace (hd (command_prefix e))"
  shows
    "(set ws \<subseteq> set whitespace \<longrightarrow>
        shlex_split ws = Inr [] \<and>
        run_command d items ws e = (Inl IndexError, e) \<and>
        runsource d items (command_prefix e @ ws) e = (Inl IndexError, e)) \<and>
     (\<not> set ws \<subseteq> set whitespace \<longrightarrow> shlex_split ws \<noteq> Inr [])"
proof (intro conjI impI)
  assume blank: "set ws \<subseteq> set whitespace"
  then show split: "shlex_split ws = Inr []" by (rule shlex_split_blank)
  then show cmd: "run_command d items ws e = (Inl IndexError, e)"
    by (simp add: run_command_def)
  have strip: "lstrip (command_prefix e @ ws) = command_prefix e @ ws"
    using assms by (rule lstrip_prefix)
  show "runsource d items (command_prefix e @ ws) e = (Inl IndexError, e)"
    using assms(1) cmd
    by (simp add: runsource_def classify_def Let_def strip startswith_def)
next
  assume "\<not> set ws \<subseteq> set whitespace"
  then show "shlex_split ws \<noteq> Inr []" by (simp add: shlex_split_empty_iff)
qed

theorem prefix_then_blank_raises_witness:
  "runsource double init_commands ''/'' e0 = (Inl IndexError, e0) \<and>
   runsource double init_commands ''/ '' e0 = (Inl IndexError, e0) \<and>
   console e0 = [] \<and>
   shlex_split [CHR 0x0B] \<noteq> Inr []"
proof -
  have "command_prefix e0 \<noteq> []" "\<not> isspace (hd (command_prefix e0))"
    by (simp_all add: double_prefix)
  note inst = prefix_then_blank_raises [OF this, where d = double and items = init_commands]
  have "set [] \<subseteq> set whitespace" by simp
  with inst [where ws = "[]"] have 1: "runsource double init_commands ''/'' e0 = (Inl IndexError, e0)"
    by (simp add: double_prefix)
  from inst [where ws = "'' ''"] double_prefix(3)
  have 2: "runsource double init_commands ''/ '' e0 = (Inl IndexError, e0)"
    by (simp add: double_prefix)
  have "\<not> set [CHR 0x0B] \<subseteq> set whitespace" by (simp add: whitespace_def)
  with inst [where ws = "[CHR 0x0B]"] have 3: "shlex_split [CHR 0x0B] \<noteq> Inr []"
    by blast
  have "console e0 = []" by (simp add: e0_def Environment_def)
  with 1 2 3 show ?thesis by simp
qed

subsection \<open>Dispatch\<close>

lemma find_in: "find P xs = Some x \<Longrightarrow> x \<in> set xs \<and> P x"
  by (induction xs) (simp_all split: if_splits)

lemma find_unique:
  "x \<in> set xs \<Longrightarrow> P x \<Longrightarrow> \<forall>y \<in> set xs. P y \<longrightarrow> y = x \<Longrightarrow> find P xs = Some x"
proof (induction xs)
  case Nil
  then show ?case by simp
next
  case (Cons a xs)
  show ?case
  proof (cases "P a")
    case True
    with Cons.prems(3) have "a = x" by simp
    with True show ?thesis by simp
  next
    case False
    with Cons.prems have "x \<in> set xs" by auto
    moreover note Cons.prems(2)
    moreover from Cons.prems(3) have "\<forall>y \<in> set xs. P y \<longrightarrow> y = x" by simp
    ultimately have "find P xs = Some x" by (rule Cons.IH)
    with False show ?thesis by simp
  qed
qed

lemma find_order_free:
  assumes same: "set xs = set ys"
    and unique: "\<forall>x \<in> set ys. \<forall>y \<in> set ys. P x \<and> P y \<longrightarrow> x = y"
  shows "find P xs = find P ys"
proof (cases "find P ys")
  case None
  then have "\<forall>y \<in> set ys. \<not> P y" by (simp add: find_None_iff)
  with same have "find P xs = None" by (simp add: find_None_iff)
  with None show ?thesis by simp
next
  case (Some x)
  then have x: "x \<in> set ys \<and> P x" by (rule find_in)
  with unique have u: "\<forall>y \<in> set ys. P y \<longrightarrow> y = x" by blast
  from x same have "x \<in> set xs" by simp
  moreover from x have "P x" by simp
  moreover from u same have "\<forall>y \<in> set xs. P y \<longrightarrow> y = x" by simp
  ultimately have "find P xs = Some x" by (rule find_unique)
  with Some show ?thesis by simp
qed

lemma scan_find:
  "\<forall>item \<in> set todo. fst item \<noteq> [] \<Longrightarrow>
   scan d items todo tokens e =
     (case find (matches tokens) todo of
        None \<Rightarrow>
          (Inr (), write_error (''Syntax Error: Invalid slash command '' @ [CHR 0x27] @ hd tokens @ [CHR 0x27]) e)
      | Some (pattern, command_class) \<Rightarrow> execute d items command_class (tl tokens) e)"
proof (induction todo)
  case Nil
  show ?case by simp
next
  case (Cons item todo)
  obtain pattern c where item: "item = (pattern, c)" by (cases item)
  from Cons.prems item have "pattern \<noteq> []" by simp
  then obtain s rest where pattern: "pattern = s # rest"
    by (cases pattern) simp_all
  from Cons.prems have "\<forall>item \<in> set todo. fst item \<noteq> []" by simp
  then have IH: "scan d items todo tokens e =
     (case find (matches tokens) todo of
        None \<Rightarrow>
          (Inr (), write_error (''Syntax Error: Invalid slash command '' @ [CHR 0x27] @ hd tokens @ [CHR 0x27]) e)
      | Some (pattern, command_class) \<Rightarrow> execute d items command_class (tl tokens) e)"
    by (rule Cons.IH)
  have test: "matches tokens (s # rest, c) = (hd tokens = s \<and> length tokens = length (s # rest))"
    by (auto simp add: matches_def key_def)
  show ?case
  proof (cases "matches tokens (s # rest, c)")
    case True
    with test show ?thesis by (simp add: item pattern)
  next
    case False
    with test have "\<not> (hd tokens = s \<and> length tokens = length (s # rest))" by blast
    then have "scan d items ((s # rest, c) # todo) tokens e = scan d items todo tokens e"
      by auto
    with False IH show ?thesis by (simp add: item pattern)
  qed
qed

lemma init_commands_eq:
  "init_commands = commands @ [([''help''], HelpCommand), ([''help'', ''<topic>''], HelpCommand)]"
  by (simp add: init_commands_def commands_def)

lemma init_commands_keys:
  "map key init_commands =
     [(''begin'', 1), (''commit'', 1), (''rollback'', 1), (''connect'', 1), (''connect'', 2),
      (''connect'', 4), (''exit'', 1), (''play'', 1), (''dbms'', 1), (''params'', 1),
      (''push'', 1), (''clear'', 1), (''config'', 1), (''config'', 2), (''help'', 1), (''help'', 2)]"
  by (simp add: init_commands_eq commands_def key_def)

lemma init_commands_distinct: "distinct (map key init_commands)"
  unfolding init_commands_keys by simp

lemma init_commands_nonempty: "\<forall>item \<in> set init_commands. fst item \<noteq> []"
  by (simp add: init_commands_eq commands_def)

lemma init_commands_one_match:
  "\<forall>x \<in> set init_commands. \<forall>y \<in> set init_commands.
     matches tokens x \<and> matches tokens y \<longrightarrow> x = y"
proof (intro ballI impI)
  fix x y
  assume x: "x \<in> set init_commands" and y: "y \<in> set init_commands"
    and both: "matches tokens x \<and> matches tokens y"
  from both have "key x = key y" by (simp add: matches_def)
  moreover from init_commands_distinct have "inj_on key (set init_commands)"
    by (simp add: distinct_map)
  ultimately show "x = y" using x y by (simp add: inj_on_def)
qed

text \<open>
  Claim C8. The registry with the two help patterns holds no two items with the same
  first element and the same number of elements; so whatever the order in which
  \<^verbatim>\<open>items()\<close> yields the items of the registry, the loop of \<^verbatim>\<open>run_command\<close>
  ends the same way: the same class executed on the same arguments, or the same report.
\<close>

theorem registry_unambiguous:
  "distinct (map key init_commands) \<and>
   (set todo = set init_commands \<longrightarrow>
      scan d items todo tokens e = scan d items init_commands tokens e)"
proof (intro conjI impI)
  show "distinct (map key init_commands)" by (rule init_commands_distinct)
next
  assume same: "set todo = set init_commands"
  with init_commands_nonempty have "\<forall>item \<in> set todo. fst item \<noteq> []" by simp
  then have "scan d items todo tokens e =
     (case find (matches tokens) todo of
        None \<Rightarrow>
          (Inr (), write_error (''Syntax Error: Invalid slash command '' @ [CHR 0x27] @ hd tokens @ [CHR 0x27]) e)
      | Some (pattern, command_class) \<Rightarrow> execute d items command_class (tl tokens) e)"
    by (rule scan_find)
  moreover have "find (matches tokens) todo = find (matches tokens) init_commands"
    using same init_commands_one_match by (rule find_order_free)
  ultimately show "scan d items todo tokens e = scan d items init_commands tokens e"
    by (simp add: scan_find [OF init_commands_nonempty])
qed

lemma double_connect_dispatch:
  "scan double init_commands init_commands [''connect'', ''bolt://x''] e0 =
     (Inr (), console_write ''bolt://x'' e0)"
  by (simp add: init_commands_eq commands_def execute_def double_def double_execute_command_def)

theorem registry_unambiguous_witness:
  "scan double init_commands (rev init_commands) [''connect'', ''bolt://x''] e0 =
     (Inr (), console_write ''bolt://x'' e0)"
proof -
  have "set (rev init_commands) = set init_commands" by simp
  with registry_unambiguous [where todo = "rev init_commands" and d = double
      and items = init_commands and tokens = "[''connect'', ''bolt://x'']" and e = e0]
  have "scan double init_commands (rev init_commands) [''connect'', ''bolt://x''] e0 =
        scan double init_commands init_commands [''connect'', ''bolt://x''] e0"
    by blast
  with double_connect_dispatch show ?thesis by simp
qed

subsection \<open>Exceptions of run_command\<close>

lemma run_command_raises:
  "shlex_split source = Inl x \<Longrightarrow> run_command d items source e = (Inl x, e)"
  by (simp add: run_command_def)

lemma runsource_command_raises:
  assumes "lstrip line = command_prefix e @ source" and "lstrip line \<noteq> []"
    and "run_command d items source e = (Inl x, e')"
  shows "runsource d items line e = (Inl x, e')"
proof -
  from assms(1) have "startswith (lstrip line) (command_prefix e)"
    by (simp add: startswith_def)
  moreover from assms(1) have "drop (length (command_prefix e)) (lstrip line) = source"
    by simp
  ultimately show ?thesis
    using assms(2,3) by (simp add: runsource_command)
qed

lemma run_command_no_match:
  assumes "shlex_split source = Inr (t # ts)"
    and "\<forall>item \<in> set items. fst item \<noteq> [] \<and> \<not> matches (lower t # ts) item"
  shows "run_command d items source e =
    (Inr (), write_error (''Syntax Error: Invalid slash command '' @ [CHR 0x27] @ lower t @ [CHR 0x27]) e)"
proof -
  from assms(2) have "find (matches (lower t # ts)) items = None"
    by (simp add: find_None_iff)
  moreover from assms(2) have "\<forall>item \<in> set items. fst item \<noteq> []" by simp
  ultimately have "scan d items items (lower t # ts) e =
    (Inr (), write_error (''Syntax Error: Invalid slash command '' @ [CHR 0x27] @ lower t @ [CHR 0x27]) e)"
    by (simp add: scan_find)
  with assms(1) show ?thesis by (simp add: run_command_def)
qed

text \<open>
  Claim C7, as stated, fails: \<^verbatim>\<open>run_command\<close> has no exception handler. On the line
  \<^verbatim>\<open>/play "x\<close> the tokenizer raises \<^verbatim>\<open>ValueError\<close>, which leaves \<^verbatim>\<open>runsource\<close>
  uncaught; nothing is written to the error channel.
\<close>

theorem unbalanced_quote_propagates:
  "runsource double init_commands (''/play '' @ [CHR 0x22] @ ''x'') e0 =
     (Inl (ValueError ''No closing quotation''), e0) \<and> console e0 = []"
  by code_simp

lemma double_malformed:
  "shlex_split (''play '' @ [CHR 0x22] @ ''x'') = Inl (ValueError ''No closing quotation'')"
  "lstrip (''/play '' @ [CHR 0x22] @ ''x'') = command_prefix e0 @ (''play '' @ [CHR 0x22] @ ''x'')"
  "lstrip (''/play '' @ [CHR 0x22] @ ''x'') \<noteq> []"
  by code_simp+

lemma double_unknown:
  "shlex_split ''Nope x'' = Inr [''Nope'', ''x'']" "lower ''Nope'' = ''nope''"
  by code_simp+

lemma double_unknown_no_match:
  "\<forall>item \<in> set init_commands. fst item \<noteq> [] \<and> \<not> matches [''nope'', ''x''] item"
  by (simp add: init_commands_eq commands_def matches_def key_def)

text \<open>
  With a first token, \<^verbatim>\<open>run_command\<close> lowers that token alone, and the first item of
  the registry that matches decides: its class is executed on the other tokens as they
  are; with no such item the lowered token is reported.
\<close>

lemma run_command_dispatch:
  assumes "shlex_split source = Inr (t # ts)" and "\<forall>item \<in> set items. fst item \<noteq> []"
  shows "run_command d items source e =
     (case find (matches (lower t # ts)) items of
        None \<Rightarrow>
          (Inr (), write_error
             (''Syntax Error: Invalid slash command '' @ [CHR 0x27] @ lower t @ [CHR 0x27]) e)
      | Some (pattern, command_class) \<Rightarrow> execute d items command_class ts e)"
  using assms by (simp add: run_command_def scan_find split: option.splits)

text \<open>
  Claim C7, amended. \<^verbatim>\<open>run_command\<close> has no exception handler. When the tokenizer
  raises, on a line that is malformed under the quoting rules, the exception leaves
  \<^verbatim>\<open>run_command\<close> with the environment untouched. With a first token, what
  \<^verbatim>\<open>run_command\<close> does is what the first matching item of the registry decides: the
  result of executing its class on the other tokens, an exception of the command (or of
  the usage overview, for help) included; only with no matching item does
  \<^verbatim>\<open>run_command\<close> itself write, the one message of the invalid slash command, and it
  then raises nothing. And any exception that leaves \<^verbatim>\<open>run_command\<close> leaves
  \<^verbatim>\<open>runsource\<close>.
\<close>

theorem run_command_has_no_handler:
  "(shlex_split source = Inl x \<longrightarrow> run_command d items source e = (Inl x, e)) \<and>
   (shlex_split source = Inr (t # ts) \<and> (\<forall>item \<in> set items. fst item \<noteq> []) \<longrightarrow>
      run_command d items source e =
        (case find (matches (lower t # ts)) items of
           None \<Rightarrow>
             (Inr (), write_error
                (''Syntax Error: Invalid slash command '' @ [CHR 0x27] @ lower t @ [CHR 0x27]) e)
         | Some (pattern, command_class) \<Rightarrow>
             if command_class = HelpCommand then help_execute d items e
             else execute_command d command_class ts e)) \<and>
   (print_usage_overview d items e = (Inl x, e') \<longrightarrow> help_execute d items e = (Inl x, e')) \<and>
   (shlex_split source = Inr (t # ts) \<and>
    (\<forall>item \<in> set items. fst item \<noteq> [] \<and> \<not> matches (lower t # ts) item) \<longrightarrow>
      run_command d items source e =
        (Inr (), write_error
           (''Syntax Error: Invalid slash command '' @ [CHR 0x27] @ lower t @ [CHR 0x27]) e)) \<and>
   (lstrip line = command_prefix e @ source \<and> lstrip line \<noteq> [] \<and>
    run_command d items source e = (Inl x, e') \<longrightarrow>
      runsource d items line e = (Inl x, e'))"
proof (intro conjI impI)
  assume "shlex_split source = Inl x"
  then show "run_command d items source e = (Inl x, e)" by (rule run_command_raises)
next
  assume "shlex_split source = Inr (t # ts) \<and> (\<forall>item \<in> set items. fst item \<noteq> [])"
  then show "run_command d items source e =
        (case find (matches (lower t # ts)) items of
           None \<Rightarrow>
             (Inr (), write_error
                (''Syntax Error: Invalid slash command '' @ [CHR 0x27] @ lower t @ [CHR 0x27]) e)
         | Some (pattern, command_class) \<Rightarrow>
             if command_class = HelpCommand then help_execute d items e
             else execute_command d command_class ts e)"
    by (simp add: run_command_dispatch execute_def split: option.splits)
next
  assume "print_usage_overview d items e = (Inl x, e')"
  then show "help_execute d items e = (Inl x, e')" by (simp add: help_execute_def)
next
  assume "shlex_split source = Inr (t # ts) \<and>
    (\<forall>item \<in> set items. fst item \<noteq> [] \<and> \<not> matches (lower t # ts) item)"
  then show "run_command d items source e =
        (Inr (), write_error
           (''Syntax Error: Invalid slash command '' @ [CHR 0x27] @ lower t @ [CHR 0x27]) e)"
    by (simp add: run_command_no_match)
next
  assume line: "lstrip line = command_prefix e @ source \<and> lstrip line \<noteq> [] \<and>
    run_command d items source e = (Inl x, e')"
  then have "lstrip line = command_prefix e @ source" by blast
  moreover from line have "lstrip line \<noteq> []" by blast
  moreover from line have "run_command d items source e = (Inl x, e')" by blast
  ultimately show "runsource d items line e = (Inl x, e')"
    by (rule runsource_command_raises)
qed

text \<open>
  On the test double: the unbalanced quote, the unknown command \<^verbatim>\<open>Nope x\<close>, and the
  exit command, whose \<^verbatim>\<open>SystemExit\<close> leaves \<^verbatim>\<open>run_command\<close> and \<^verbatim>\<open>runsource\<close>.
\<close>

lemma double_exit:
  "shlex_split ''exit'' = Inr [''exit'']" "lower ''exit'' = ''exit''"
  "lstrip ''/exit'' = command_prefix e0 @ ''exit''" "lstrip ''/exit'' \<noteq> []"
  by code_simp+

lemma double_exit_match:
  "find (matches [''exit'']) init_commands = Some ([''exit''], ExitCommand)"
  by (simp add: init_commands_eq commands_def matches_def key_def)

theorem run_command_has_no_handler_witness:
  "runsource double init_commands (''/play '' @ [CHR 0x22] @ ''x'') e0 =
     (Inl (ValueError ''No closing quotation''), e0) \<and>
   run_command double init_commands ''Nope x'' e0 =
     (Inr (), write_error (''Syntax Error: Invalid slash command '' @ [CHR 0x27] @ ''nope'' @ [CHR 0x27]) e0) \<and>
   run_command double init_commands ''exit'' e0 = (Inl (SystemExit 0), e0) \<and>
   runsource double init_commands ''/exit'' e0 = (Inl (SystemExit 0), e0)"
proof -
  note malformed = run_command_has_no_handler [where source = "''play '' @ [CHR 0x22] @ ''x''"
      and x = "ValueError ''No closing quotation''" and e = e0 and e' = e0 and d = double
      and items = init_commands and line = "''/play '' @ [CHR 0x22] @ ''x''"]
  note unknown = run_command_has_no_handler [where source = "''Nope x''" and t = "''Nope''"
      and ts = "[''x'']" and e = e0 and d = double and items = init_commands]
  note leave = run_command_has_no_handler [where source = "''exit''" and t = "''exit''"
      and ts = "[]" and e = e0 and e' = e0 and d = double and items = init_commands
      and line = "''/exit''" and x = "SystemExit 0"]
  from malformed double_malformed(1)
  have "run_command double init_commands (''play '' @ [CHR 0x22] @ ''x'') e0 =
     (Inl (ValueError ''No closing quotation''), e0)"
    by blast
  with malformed double_malformed(2,3)
  have 1: "runsource double init_commands (''/play '' @ [CHR 0x22] @ ''x'') e0 =
     (Inl (ValueError ''No closing quotation''), e0)"
    by blast
  from double_unknown double_unknown_no_match
  have "shlex_split ''Nope x'' = Inr [''Nope'', ''x''] \<and>
    (\<forall>item \<in> set init_commands. fst item \<noteq> [] \<and> \<not> matches (lower ''Nope'' # [''x'']) item)"
    by simp
  with unknown have "run_command double init_commands ''Nope x'' e0 =
     (Inr (), write_error (''Syntax Error: Invalid slash command '' @ [CHR 0x27] @ lower ''Nope'' @ [CHR 0x27]) e0)"
    by blast
  with double_unknown(2) have 2: "run_command double init_commands ''Nope x'' e0 =
     (Inr (), write_error (''Syntax Error: Invalid slash command '' @ [CHR 0x27] @ ''nope'' @ [CHR 0x27]) e0)"
    by simp
  from double_exit(1) init_commands_nonempty
  have "shlex_split ''exit'' = Inr (''exit'' # []) \<and> (\<forall>item \<in> set init_commands. fst item \<noteq> [])"
    by simp
  with leave have "run_command double init_commands ''exit'' e0 =
        (case find (matches (lower ''exit'' # [])) init_commands of
           None \<Rightarrow>
             (Inr (), write_error
                (''Syntax Error: Invalid slash command '' @ [CHR 0x27] @ lower ''exit'' @ [CHR 0x27]) e0)
         | Some (pattern, command_class) \<Rightarrow>
             if command_class = HelpCommand then help_execute double init_commands e0
             else execute_command double command_class [] e0)"
    by blast
  then have 3: "run_command double init_commands ''exit'' e0 = (Inl (SystemExit 0), e0)"
    by (simp add: double_exit(2) double_exit_match double_def double_execute_command_def)
  with leave double_exit(3,4)
  have 4: "runsource double init_commands ''/exit'' e0 = (Inl (SystemExit 0), e0)"
    by blast
  from 1 2 3 4 show ?thesis by simp
qed

text \<open>
  Claim C2 holds on every line that has a first token; the code misses the line that has
  none. On the slash command line \<^verbatim>\<open>/\<close> the text after the prefix tokenizes to the
  empty list, \<^verbatim>\<open>tokens[0]\<close> raises \<^verbatim>\<open>IndexError\<close> before the registry is scanned,
  and nothing is reported.
\<close>

theorem run_command_without_token:
  "shlex_split [] = Inr [] \<and>
   run_command double init_commands [] e0 = (Inl IndexError, e0) \<and>
   console (snd (run_command double init_commands [] e0)) = []"
  by code_simp

subsection \<open>Batch mode\<close>

lemma batch_returns:
  "fst (batch d xs t) = Inr () \<Longrightarrow> snd (batch d xs t) = foldl (feed d) t xs"
proof (induction xs arbitrary: t)
  case Nil
  show ?case by simp
next
  case (Cons a xs)
  obtain r e' where step: "runsource d (self_commands t) a (env t) = (r, e')"
    by (cases "runsource d (self_commands t) a (env t)")
  show ?case
  proof (cases r)
    case (Inl x)
    with step Cons.prems show ?thesis by simp
  next
    case (Inr m)
    with step have unfold: "batch d (a # xs) t = batch d xs (feed d t a)"
      by (simp add: feed_def)
    with Cons.prems have "fst (batch d xs (feed d t a)) = Inr ()" by simp
    then have "snd (batch d xs (feed d t a)) = foldl (feed d) (feed d t a) xs"
      by (rule Cons.IH)
    with unfold show ?thesis by simp
  qed
qed

lemma batch_append:
  "batch d (xs @ ys) t =
     (case batch d xs t of (Inl x, t') \<Rightarrow> (Inl x, t') | (Inr u, t') \<Rightarrow> batch d ys t')"
  by (induction xs arbitrary: t) (simp_all split: prod.splits sum.splits)

lemma self_commands_feed: "self_commands (feed d t a) = self_commands t"
  by (simp add: feed_def)

lemma self_commands_foldl_feed: "self_commands (foldl (feed d) t xs) = self_commands t"
  by (induction xs arbitrary: t) (simp_all add: self_commands_feed)

lemma batch_stops:
  assumes "fst (batch d xs t) = Inr ()"
    and "fst (runsource d (self_commands t) a (env (foldl (feed d) t xs))) = Inl x"
  shows "batch d (xs @ a # ys) t = (Inl x, feed d (foldl (feed d) t xs) a)"
proof -
  from assms(1) have "batch d xs t = (Inr (), foldl (feed d) t xs)"
    using batch_returns [OF assms(1)] by (cases "batch d xs t") simp
  then have "batch d (xs @ a # ys) t = batch d (a # ys) (foldl (feed d) t xs)"
    by (simp add: batch_append)
  with assms(2) show ?thesis
    by (cases "runsource d (self_commands t) a (env (foldl (feed d) t xs))")
       (simp add: feed_def self_commands_foldl_feed)
qed

text \<open>
  Claim C5, as stated, fails: an argument whose \<^verbatim>\<open>runsource\<close> call raises ends the
  batch, and the arguments after it are never fed. With the arguments \<^verbatim>\<open>/\<close> and
  \<^verbatim>\<open>RETURN 1\<close> the first raises \<^verbatim>\<open>IndexError\<close>, which leaves \<^verbatim>\<open>use\<close>; the
  console stays empty, where the query path of the test double would have written the
  second.
\<close>

theorem batch_stops_at_exception:
  "use double [] (init [''py2neo'', ''/'', ''RETURN 1''] False) =
     (Inl IndexError, init [''py2neo'', ''/'', ''RETURN 1''] False) \<and>
   console (env (init [''py2neo'', ''/'', ''RETURN 1''] False)) = []"
  by code_simp

text \<open>
  Claim C5, amended. Let the startup connection succeed, and leave the interactive flag
  as the constructor set it. With more than one argument \<^verbatim>\<open>use\<close> is the batch loop
  over the arguments after the first, whatever the terminal would deliver: the read loop
  is not entered. The loop feeds the arguments to \<^verbatim>\<open>runsource\<close> in order: when it
  returns, every argument has been fed once, each on the environment the one before
  left; when a call raises, the loop ends with that exception and the later arguments
  are not fed. With exactly one argument \<^verbatim>\<open>use\<close> is \<^verbatim>\<open>interact\<close>.
\<close>

theorem use_selects_mode:
  assumes "connect d (NEO4J_URI d) (NEO4J_USER d) (NEO4J_PASSWORD d) (env (init argv session0)) =
             (Inr (), e')"
    and "interactive e' = interactive (env (init argv session0))"
  shows
    "(1 < length argv \<longrightarrow>
        use d stdin (init argv session0) = batch d (tl argv) ((init argv session0)\<lparr>env := e'\<rparr>)) \<and>
     (length argv = 1 \<longrightarrow>
        use d stdin (init argv session0) = interact d stdin ((init argv session0)\<lparr>env := e'\<rparr>)) \<and>
     (\<forall>xs t. fst (batch d xs t) = Inr () \<longrightarrow> snd (batch d xs t) = foldl (feed d) t xs) \<and>
     (\<forall>xs a ys t x.
        fst (batch d xs t) = Inr () \<and>
        fst (runsource d (self_commands t) a (env (foldl (feed d) t xs))) = Inl x \<longrightarrow>
        batch d (xs @ a # ys) t = (Inl x, feed d (foldl (feed d) t xs) a))"
proof (intro conjI allI impI)
  assume "1 < length argv"
  with assms show "use d stdin (init argv session0) =
      batch d (tl argv) ((init argv session0)\<lparr>env := e'\<rparr>)"
    by (simp add: use_def init_def Environment_def drop_Suc)
next
  assume "length argv = 1"
  with assms show "use d stdin (init argv session0) =
      interact d stdin ((init argv session0)\<lparr>env := e'\<rparr>)"
    by (simp add: use_def init_def Environment_def)
next
  fix xs and t :: "'a tool"
  assume "fst (batch d xs t) = Inr ()"
  then show "snd (batch d xs t) = foldl (feed d) t xs" by (rule batch_returns)
next
  fix xs a ys x and t :: "'a tool"
  assume "fst (batch d xs t) = Inr () \<and>
        fst (runsource d (self_commands t) a (env (foldl (feed d) t xs))) = Inl x"
  then show "batch d (xs @ a # ys) t = (Inl x, feed d (foldl (feed d) t xs) a)"
    by (simp add: batch_stops)
qed

lemma double_connects:
  "connect double (NEO4J_URI double) (NEO4J_USER double) (NEO4J_PASSWORD double)
     (env (init [''py2neo'', ''RETURN 2'', ''RETURN 1''] False)) =
   (Inr (), env (init [''py2neo'', ''RETURN 2'', ''RETURN 1''] False))"
  by code_simp

lemma double_batch:
  "batch double [''RETURN 2'', ''RETURN 1''] (init [''py2neo'', ''RETURN 2'', ''RETURN 1''] False) =
     (Inr (), (init [''py2neo'', ''RETURN 2'', ''RETURN 1''] False)
        \<lparr>env := (Environment [Write ''RETURN 2'', Write [], Write ''RETURN 1'', Write []] False False)\<rparr>)"
  by code_simp

theorem use_selects_mode_witness:
  "use double [Line ''/exit''] (init [''py2neo'', ''RETURN 2'', ''RETURN 1''] False) =
     (Inr (), (init [''py2neo'', ''RETURN 2'', ''RETURN 1''] False)
        \<lparr>env := (Environment [Write ''RETURN 2'', Write [], Write ''RETURN 1'', Write []] False False)\<rparr>)"
proof -
  let ?t = "init [''py2neo'', ''RETURN 2'', ''RETURN 1''] False :: bool tool"
  have "interactive (env ?t) = interactive (env ?t)" by simp
  from use_selects_mode [OF double_connects this, where stdin = "[Line ''/exit'']"]
  have "use double [Line ''/exit''] ?t = batch double (tl [''py2neo'', ''RETURN 2'', ''RETURN 1'']) (?t\<lparr>env := env ?t\<rparr>)"
    by simp
  with double_batch show ?thesis by simp
qed

subsection \<open>The startup connection\<close>

text \<open>
  Claim C6, as stated, fails: the startup failure is not the only error that ends the
  process. In a batch run, on the argument \<^verbatim>\<open>/play "x\<close> the connection succeeds and
  the tokenizer's \<^verbatim>\<open>ValueError\<close> leaves \<^verbatim>\<open>use\<close> uncaught.
\<close>

theorem other_error_ends_use:
  "use double [] (init [''py2neo'', ''/play '' @ [CHR 0x22] @ ''x''] False) =
     (Inl (ValueError ''No closing quotation''),
      init [''py2neo'', ''/play '' @ [CHR 0x22] @ ''x''] False)"
  by code_simp

lemma interact_welcomed: "interact d stdin t = read_loop d stdin (welcomed d t)"
  by (simp add: interact_def welcomed_def Let_def)

lemma batch_raises:
  "runsource d (self_commands t) a (env t) = (Inl x, e1) \<Longrightarrow>
   batch d (a # rest) t = (Inl x, t\<lparr>env := e1\<rparr>)"
  by simp

lemma read_loop_raises:
  "push d line t = (Inl x, t1) \<Longrightarrow> x \<noteq> KeyboardInterrupt \<Longrightarrow>
   read_loop d (Line line # keys) t = (Inl x, t1)"
  by simp

lemma read_loop_interrupted:
  "push d line t = (Inl KeyboardInterrupt, t1) \<Longrightarrow>
   read_loop d (Line line # keys) t = read_loop d keys (t1\<lparr>buffer := []\<rparr>)"
  by simp

text \<open>
  Claim C6, amended. \<^verbatim>\<open>use\<close> first calls \<^verbatim>\<open>connect\<close> with the URI, the user and the
  password of the process environment (\<^verbatim>\<open>localhost\<close>, \<^verbatim>\<open>neo4j\<close> and \<^verbatim>\<open>None\<close> when
  unset). When that raises \<^verbatim>\<open>ServiceUnavailable\<close>, \<^verbatim>\<open>use\<close> ends with
  \<^verbatim>\<open>SystemExit(1)\<close> and the environment \<^verbatim>\<open>connect\<close> left: neither loop has run, no
  line was read and no argument fed. It is the only exception \<^verbatim>\<open>use\<close> itself catches:
  any other exception of \<^verbatim>\<open>connect\<close> leaves \<^verbatim>\<open>use\<close> as it is, and when
  \<^verbatim>\<open>connect\<close> returns, \<^verbatim>\<open>use\<close> ends as the loop it enters ends. The batch loop
  catches nothing: an exception of \<^verbatim>\<open>runsource\<close> ends it. The read loop catches
  \<^verbatim>\<open>KeyboardInterrupt\<close> only, resets the buffer and goes on; any other exception of
  \<^verbatim>\<open>push\<close> ends it.
\<close>

theorem use_catches_service_unavailable:
  "NEO4J_URI d = (case getenv d ''NEO4J_URI'' of None \<Rightarrow> ''localhost'' | Some v \<Rightarrow> v) \<and>
   NEO4J_USER d = (case getenv d ''NEO4J_USER'' of None \<Rightarrow> ''neo4j'' | Some v \<Rightarrow> v) \<and>
   NEO4J_PASSWORD d = getenv d ''NEO4J_PASSWORD'' \<and>
   (connect d (NEO4J_URI d) (NEO4J_USER d) (NEO4J_PASSWORD d) (env t) = (Inl ServiceUnavailable, e') \<longrightarrow>
      use d stdin t = (Inl (SystemExit 1), t\<lparr>env := e'\<rparr>)) \<and>
   (connect d (NEO4J_URI d) (NEO4J_USER d) (NEO4J_PASSWORD d) (env t) = (Inl x, e') \<and>
    x \<noteq> ServiceUnavailable \<longrightarrow>
      use d stdin t = (Inl x, t\<lparr>env := e'\<rparr>)) \<and>
   (connect d (NEO4J_URI d) (NEO4J_USER d) (NEO4J_PASSWORD d) (env t) = (Inr (), e') \<longrightarrow>
      use d stdin t =
        (if interactive e' then read_loop d stdin (welcomed d (t\<lparr>env := e'\<rparr>))
         else batch d (drop 1 (args t)) (t\<lparr>env := e'\<rparr>))) \<and>
   (\<forall>u a rest y e1.
      runsource d (self_commands u) a (env u) = (Inl y, e1) \<longrightarrow>
      batch d (a # rest) u = (Inl y, u\<lparr>env := e1\<rparr>)) \<and>
   (\<forall>u line keys y u1.
      push d line u = (Inl y, u1) \<and> y \<noteq> KeyboardInterrupt \<longrightarrow>
      read_loop d (Line line # keys) u = (Inl y, u1)) \<and>
   (\<forall>u line keys u1.
      push d line u = (Inl KeyboardInterrupt, u1) \<longrightarrow>
      read_loop d (Line line # keys) u = read_loop d keys (u1\<lparr>buffer := []\<rparr>)) \<and>
   (\<forall>u keys. read_loop d (Interrupt # keys) u = read_loop d keys (u\<lparr>buffer := []\<rparr>))"
proof (intro conjI allI impI)
  show "NEO4J_URI d = (case getenv d ''NEO4J_URI'' of None \<Rightarrow> ''localhost'' | Some v \<Rightarrow> v)"
    by (simp add: NEO4J_URI_def)
  show "NEO4J_USER d = (case getenv d ''NEO4J_USER'' of None \<Rightarrow> ''neo4j'' | Some v \<Rightarrow> v)"
    by (simp add: NEO4J_USER_def)
  show "NEO4J_PASSWORD d = getenv d ''NEO4J_PASSWORD''"
    by (simp add: NEO4J_PASSWORD_def)
next
  assume "connect d (NEO4J_URI d) (NEO4J_USER d) (NEO4J_PASSWORD d) (env t) = (Inl ServiceUnavailable, e')"
  then show "use d stdin t = (Inl (SystemExit 1), t\<lparr>env := e'\<rparr>)"
    by (simp add: use_def)
next
  assume "connect d (NEO4J_URI d) (NEO4J_USER d) (NEO4J_PASSWORD d) (env t) = (Inl x, e') \<and>
    x \<noteq> ServiceUnavailable"
  then show "use d stdin t = (Inl x, t\<lparr>env := e'\<rparr>)"
    by (simp add: use_def)
next
  assume "connect d (NEO4J_URI d) (NEO4J_USER d) (NEO4J_PASSWORD d) (env t) = (Inr (), e')"
  then show "use d stdin t =
        (if interactive e' then read_loop d stdin (welcomed d (t\<lparr>env := e'\<rparr>))
         else batch d (drop 1 (args t)) (t\<lparr>env := e'\<rparr>))"
    by (simp add: use_def interact_welcomed)
next
  fix u :: "'a tool" and a rest y e1
  assume "runsource d (self_commands u) a (env u) = (Inl y, e1)"
  then show "batch d (a # rest) u = (Inl y, u\<lparr>env := e1\<rparr>)" by (rule batch_raises)
next
  fix u :: "'a tool" and line keys y u1
  assume "push d line u = (Inl y, u1) \<and> y \<noteq> KeyboardInterrupt"
  then show "read_loop d (Line line # keys) u = (Inl y, u1)"
    by (simp add: read_loop_raises)
next
  fix u :: "'a tool" and line keys u1
  assume "push d line u = (Inl KeyboardInterrupt, u1)"
  then show "read_loop d (Line line # keys) u = read_loop d keys (u1\<lparr>buffer := []\<rparr>)"
    by (rule read_loop_interrupted)
next
  fix u :: "'a tool" and keys
  show "read_loop d (Interrupt # keys) u = read_loop d keys (u\<lparr>buffer := []\<rparr>)" by simp
qed

text \<open>
  On the test double. With the server down, \<^verbatim>\<open>use\<close> exits with status 1 and an
  untouched console. In an interactive run the line \<^verbatim>\<open>/play "x\<close> ends \<^verbatim>\<open>use\<close> with
  the tokenizer's \<^verbatim>\<open>ValueError\<close>, the line after it unread; the interrupted
  \<^verbatim>\<open>RETURN 0\<close> does not: the buffer is reset and the next line is read and run.
\<close>

lemma double_down_connect:
  "connect double_down (NEO4J_URI double_down) (NEO4J_USER double_down) (NEO4J_PASSWORD double_down)
     (env (init [''py2neo'', ''RETURN 1''] False)) =
   (Inl ServiceUnavailable, env (init [''py2neo'', ''RETURN 1''] False))"
  by code_simp

lemma double_t0_connects:
  "connect double (NEO4J_URI double) (NEO4J_USER double) (NEO4J_PASSWORD double) (env t0) =
     (Inr (), env t0)"
  "interactive (env t0)"
  by code_simp+

lemma double_push_malformed:
  "push double (''/play '' @ [CHR 0x22] @ ''x'') (welcomed double t0) =
     (Inl (ValueError ''No closing quotation''),
      (welcomed double t0)\<lparr>buffer := [''/play '' @ [CHR 0x22] @ ''x'']\<rparr>)"
  by code_simp

lemma double_push_interrupted:
  "push double ''RETURN 0'' (welcomed double t0) =
     (Inl KeyboardInterrupt, (welcomed double t0)\<lparr>buffer := [''RETURN 0'']\<rparr>)"
  by code_simp

lemma double_read_on:
  "read_loop double [Line ''RETURN 1''] ((welcomed double t0)\<lparr>buffer := []\<rparr>) =
     (Inr (), (welcomed double t0)
        \<lparr>env := console_write [] (console_write ''RETURN 1'' (env (welcomed double t0)))\<rparr>)"
  by code_simp

theorem use_catches_service_unavailable_witness:
  "use double_down [Line ''RETURN 2''] (init [''py2neo'', ''RETURN 1''] False) =
     (Inl (SystemExit 1), init [''py2neo'', ''RETURN 1''] False) \<and>
   console (env (init [''py2neo'', ''RETURN 1''] False)) = [] \<and>
   use double [Line (''/play '' @ [CHR 0x22] @ ''x''), Line ''RETURN 1''] t0 =
     (Inl (ValueError ''No closing quotation''),
      (welcomed double t0)\<lparr>buffer := [''/play '' @ [CHR 0x22] @ ''x'']\<rparr>) \<and>
   use double [Line ''RETURN 0'', Line ''RETURN 1''] t0 =
     (Inr (), (welcomed double t0)
        \<lparr>env := console_write [] (console_write ''RETURN 1'' (env (welcomed double t0)))\<rparr>)"
proof -
  let ?t = "init [''py2neo'', ''RETURN 1''] False :: bool tool"
  from use_catches_service_unavailable [where d = double_down and t = ?t and e' = "env ?t"
      and stdin = "[Line ''RETURN 2'']"]
    double_down_connect
  have "use double_down [Line ''RETURN 2''] ?t = (Inl (SystemExit 1), ?t\<lparr>env := env ?t\<rparr>)"
    by blast
  then have 1: "use double_down [Line ''RETURN 2''] ?t = (Inl (SystemExit 1), ?t)" by simp
  have 2: "console (env ?t) = []" by (simp add: init_def Environment_def)
  let ?bad = "[Line (''/play '' @ [CHR 0x22] @ ''x''), Line ''RETURN 1'']"
  note bad = use_catches_service_unavailable [where d = double and t = t0 and e' = "env t0"
      and stdin = ?bad]
  from bad double_t0_connects
  have "use double ?bad t0 = read_loop double ?bad (welcomed double (t0\<lparr>env := env t0\<rparr>))"
    by simp
  then have "use double ?bad t0 = read_loop double ?bad (welcomed double t0)" by simp
  moreover from bad double_push_malformed
  have "read_loop double ?bad (welcomed double t0) =
     (Inl (ValueError ''No closing quotation''),
      (welcomed double t0)\<lparr>buffer := [''/play '' @ [CHR 0x22] @ ''x'']\<rparr>)"
    by blast
  ultimately have 3: "use double ?bad t0 =
     (Inl (ValueError ''No closing quotation''),
      (welcomed double t0)\<lparr>buffer := [''/play '' @ [CHR 0x22] @ ''x'']\<rparr>)"
    by simp
  let ?stop = "[Line ''RETURN 0'', Line ''RETURN 1'']"
  note stop = use_catches_service_unavailable [where d = double and t = t0 and e' = "env t0"
      and stdin = ?stop]
  from stop double_t0_connects
  have "use double ?stop t0 = read_loop double ?stop (welcomed double (t0\<lparr>env := env t0\<rparr>))"
    by simp
  then have "use double ?stop t0 = read_loop double ?stop (welcomed double t0)" by simp
  moreover from stop double_push_interrupted
  have "read_loop double ?stop (welcomed double t0) =
     read_loop double [Line ''RETURN 1''] ((welcomed double t0)\<lparr>buffer := [''RETURN 0'']\<rparr>\<lparr>buffer := []\<rparr>)"
    by blast
  ultimately have 4: "use double ?stop t0 =
     (Inr (), (welcomed double t0)
        \<lparr>env := console_write [] (console_write ''RETURN 1'' (env (welcomed double t0)))\<rparr>)"
    using double_read_on by simp
  from 1 2 3 4 show ?thesis by simp
qed

end
